theory Spec2Isabelle
  imports Main "HOL-Library.Word"
begin

section \<open>Error codes\<close>

text \<open>
  The members of \<^verbatim>\<open>ErrorCode\<close> that \<^verbatim>\<open>Did.ts\<close> throws and that the
  \<^verbatim>\<open>DocumentComposer\<close> tests expect.  \<open>CollaboratorError\<close> stands for whatever a
  collaborator (the creation-operation parser, the encoder, the multihash library)
  throws; \<^verbatim>\<open>Did.create\<close> has no handler, so such an error reaches the caller
  unchanged.
\<close>

datatype error =
    DidIncorrectPrefix
  | DidNoUniqueSuffix
  | DidInvalidMethodName
  | DidUniqueSuffixFromInitialStateMismatch
  | DidInvalidDidString
  | DidLongFormOnlyOneQueryParamAllowed
  | DidLongFormOnlyInitialStateParameterIsAllowed
  | DidLongFormNoInitialStateFound
  | DidInitialStateValueContainsNoDot
  | DidInitialStateValueContainsMoreThanOneDot
  | DidInitialStateValueDoesNotContainTwoParts
  | DocumentComposerDocumentMissing
  | DocumentComposerUnknownPropertyInDocument
  | DocumentComposerPublicKeysNotArray
  | DocumentComposerIdNotString
  | DocumentComposerIdNotUsingBase64UrlCharacterSet
  | DocumentComposerIdTooLong
  | DocumentComposerPublicKeyIdDuplicated
  | DocumentComposerPublicKeyTypeMissingOrUnknown
  | DocumentComposerOperationKeyTypeNotEs256k
  | DocumentComposerPublicKeyUsageMissingOrUnknown
  | DocumentComposerPublicKeyUsageExceedsMaxLength
  | DocumentComposerPublicKeyInvalidUsage
  | DocumentComposerPatchServiceEndpointsNotArray
  | DocumentComposerServiceEndpointMissingOrUnknownProperty
  | DocumentComposerPatchServiceEndpointTypeNotString
  | DocumentComposerPatchServiceEndpointTypeTooLong
  | DocumentComposerPatchServiceEndpointServiceEndpointNotString
  | DocumentComposerPatchServiceEndpointServiceEndpointTooLong
  | DocumentComposerPatchServiceEndpointServiceEndpointNotValidUrl
  | CollaboratorError string

section \<open>JavaScript string operations used by \<^verbatim>\<open>Did.ts\<close>\<close>

text \<open>\<^verbatim>\<open>s.startsWith(p)\<close>.\<close>

definition startsWith :: "string \<Rightarrow> string \<Rightarrow> bool" where
  "startsWith s p = (take (length p) s = p)"

text \<open>\<^verbatim>\<open>s.indexOf(c)\<close> for a one-character \<open>c\<close>: the first index, or \<open>-1\<close>.\<close>

fun indexOf :: "string \<Rightarrow> char \<Rightarrow> int" where
  "indexOf [] c = -1"
| "indexOf (x # xs) c =
     (if x = c then 0
      else (let i = indexOf xs c in if i < 0 then -1 else i + 1))"

text \<open>\<^verbatim>\<open>s.lastIndexOf(c)\<close>: the last index, or \<open>-1\<close>.\<close>

definition lastIndexOf :: "string \<Rightarrow> char \<Rightarrow> int" where
  "lastIndexOf s c =
     (let i = indexOf (rev s) c in if i < 0 then -1 else int (length s) - 1 - i)"

text \<open>
  \<^verbatim>\<open>s.substring(start, end)\<close>: both indices are clamped to \<open>[0, length]\<close> and
  swapped when \<open>start > end\<close>.  \<^verbatim>\<open>s.substring(start)\<close> is the same with
  \<open>end = length\<close>.
\<close>

definition clampIndex :: "string \<Rightarrow> int \<Rightarrow> nat" where
  "clampIndex s i = (if i < 0 then 0 else min (nat i) (length s))"

definition substring :: "string \<Rightarrow> int \<Rightarrow> int \<Rightarrow> string" where
  "substring s start end' =
     (let a = clampIndex s start; b = clampIndex s end';
          lo = min a b; hi = max a b
      in take (hi - lo) (drop lo s))"

definition substringFrom :: "string \<Rightarrow> int \<Rightarrow> string" where
  "substringFrom s start = substring s start (int (length s))"

text \<open>
  \<^verbatim>\<open>s.split(c)\<close> for a one-character separator: the pieces between the
  separators, the empty pieces included, so the result is never empty and has one
  piece more than \<open>s\<close> has separators.
\<close>

fun split :: "char \<Rightarrow> string \<Rightarrow> string list" where
  "split c [] = [[]]"
| "split c (x # xs) =
     (if x = c then [] # split c xs
      else (case split c xs of
              p # ps \<Rightarrow> (x # p) # ps
            | [] \<Rightarrow> [[x]]))"

section \<open>Collaborators of \<^verbatim>\<open>Did.ts\<close>\<close>

text \<open>
  \<^verbatim>\<open>Did.ts\<close> imports \<^verbatim>\<open>CreateOperation\<close>, \<^verbatim>\<open>Encoder\<close> and
  \<^verbatim>\<open>Multihash\<close> and uses the platform's \<^verbatim>\<open>URL\<close> class; none of the four is
  among the sources.  They are parameters of the model, collected in the record
  \<open>collaborators\<close>; each one that can throw returns \<open>error + _\<close>.

  \<^item> \<open>searchParams s\<close>: the \<open>(key, value)\<close> pairs that
    \<^verbatim>\<open>new URL(s).searchParams.forEach\<close> visits, in order; \<open>None\<close> when
    \<^verbatim>\<open>new URL(s)\<close> throws.
  \<^item> \<open>parseObject\<close>: \<^verbatim>\<open>CreateOperation.parseObject(request, buffer, false)\<close>.  The
    buffer is \<^verbatim>\<open>Buffer.from(JSON.stringify(request))\<close>, a function of the request,
    and the flag is the constant \<^verbatim>\<open>false\<close>, so the request is the only argument.
  \<^item> \<open>decodeAsBuffer\<close>, \<open>encode\<close>: \<^verbatim>\<open>Encoder.decodeAsBuffer\<close>, \<^verbatim>\<open>Encoder.encode\<close>.
  \<^item> \<open>getHashAlgorithmCode\<close>, \<open>hash\<close>: \<^verbatim>\<open>Multihash.getHashAlgorithmCode\<close>,
    \<^verbatim>\<open>Multihash.hash\<close>.
\<close>

type_synonym buffer = "8 word list"

datatype OperationType = Create

record create_operation_request =
  type' :: OperationType
  suffix_data :: string
  delta :: string

text \<open>
  Of a \<^verbatim>\<open>CreateOperation\<close> the code reads \<^verbatim>\<open>encodedSuffixData\<close> only; the other
  fields of the class stay in the record's extension.
\<close>

record create_operation =
  encodedSuffixData :: string

record collaborators =
  searchParams :: "string \<Rightarrow> (string \<times> string) list option"
  parseObject :: "create_operation_request \<Rightarrow> error + create_operation"
  decodeAsBuffer :: "string \<Rightarrow> error + buffer"
  getHashAlgorithmCode :: "buffer \<Rightarrow> error + nat"
  hash :: "buffer \<Rightarrow> nat \<Rightarrow> error + buffer"
  encode :: "buffer \<Rightarrow> string"

section \<open>\<^verbatim>\<open>Did\<close>\<close>

record Did =
  isShortForm :: bool
  didMethodName :: string
  uniqueSuffix :: string
  createOperation :: "create_operation option"
  shortForm :: string

definition initialStateParameterSuffix :: string where
  "initialStateParameterSuffix = ''initial-state''"

text \<open>
  The private constructor.  \<^verbatim>\<open>createOperation\<close> is not assigned by it and so is
  \<^verbatim>\<open>undefined\<close>, here \<open>None\<close>.
\<close>

definition Did_constructor :: "string \<Rightarrow> string \<Rightarrow> error + Did" where
  "Did_constructor did didMethodName' =
     (if \<not> startsWith did didMethodName' then Inl DidIncorrectPrefix
      else
        let indexOfQuestionMarkChar = indexOf did CHR ''?'';
            isShortForm' = (indexOfQuestionMarkChar < 0);
            uniqueSuffix' =
              (if isShortForm' then substringFrom did (int (length didMethodName'))
               else substring did (int (length didMethodName')) indexOfQuestionMarkChar)
        in if length uniqueSuffix' = 0 then Inl DidNoUniqueSuffix
           else Inr \<lparr> isShortForm = isShortForm',
                      didMethodName = didMethodName',
                      uniqueSuffix = uniqueSuffix',
                      createOperation = None,
                      shortForm = didMethodName' @ uniqueSuffix' \<rparr>)"

text \<open>
  The callback of \<^verbatim>\<open>searchParams.forEach\<close> in
  \<^verbatim>\<open>getInitialStateFromDidString\<close>, run over the parameters in order.  The state
  is the pair of \<^verbatim>\<open>queryParamCounter\<close> and \<^verbatim>\<open>initialStateValue\<close>; a throw in
  the callback ends the loop.
\<close>

fun forEachQueryParam ::
  "string \<Rightarrow> (string \<times> string) list \<Rightarrow> nat \<Rightarrow> string option \<Rightarrow> error + (nat \<times> string option)" where
  "forEachQueryParam methodName [] queryParamCounter initialStateValue =
     Inr (queryParamCounter, initialStateValue)"
| "forEachQueryParam methodName ((key, value) # rest) queryParamCounter initialStateValue =
     (let queryParamCounter' = queryParamCounter + 1 in
      if queryParamCounter' > 1 then Inl DidLongFormOnlyOneQueryParamAllowed
      else
        let expectedKey = ''-'' @ methodName @ ''-'' @ initialStateParameterSuffix in
        if key \<noteq> expectedKey then Inl DidLongFormOnlyInitialStateParameterIsAllowed
        else forEachQueryParam methodName rest queryParamCounter' (Some value))"

definition getInitialStateFromDidString ::
  "collaborators \<Rightarrow> string \<Rightarrow> string \<Rightarrow> error + string" where
  "getInitialStateFromDidString E didString methodName =
     (case searchParams E didString of
        None \<Rightarrow> Inl DidInvalidDidString
      | Some params \<Rightarrow>
          (case forEachQueryParam methodName params 0 None of
             Inl e \<Rightarrow> Inl e
           | Inr (queryParamCounter, initialStateValue) \<Rightarrow>
               (case initialStateValue of
                  None \<Rightarrow> Inl DidLongFormNoInitialStateFound
                | Some v \<Rightarrow> Inr v)))"

text \<open>
  \<^verbatim>\<open>constructCreateOperationFromInitialState\<close>.  After the three checks the value
  has exactly one dot, so \<^verbatim>\<open>split('.')\<close> has exactly two pieces and the reads of
  index 0 and 1 are in range (lemma \<open>split_one_separator\<close> below).
\<close>

definition constructCreateOperationFromInitialState ::
  "collaborators \<Rightarrow> string \<Rightarrow> error + create_operation" where
  "constructCreateOperationFromInitialState E initialState =
     (let firstIndexOfDot = indexOf initialState CHR ''.'' in
      if firstIndexOfDot = -1 then Inl DidInitialStateValueContainsNoDot
      else
        let lastIndexOfDot = lastIndexOf initialState CHR ''.'' in
        if lastIndexOfDot \<noteq> firstIndexOfDot then Inl DidInitialStateValueContainsMoreThanOneDot
        else if firstIndexOfDot = int (length initialState) - 1
          then Inl DidInitialStateValueDoesNotContainTwoParts
        else
          let initialStateParts = split CHR ''.'' initialState;
              suffixData = initialStateParts ! 0;
              delta' = initialStateParts ! 1;
              createOperationRequest =
                \<lparr> type' = Create, suffix_data = suffixData, delta = delta' \<rparr>
          in parseObject E createOperationRequest)"

text \<open>\<^verbatim>\<open>Did.create\<close>.\<close>

definition create :: "collaborators \<Rightarrow> string \<Rightarrow> string \<Rightarrow> error + Did" where
  "create E didString expectedDidPrefix =
     (let didPrefixParts = split CHR '':'' expectedDidPrefix in
      if length didPrefixParts < 2 then Inl DidInvalidMethodName
      else
        let methodName = didPrefixParts ! 1 in
        case Did_constructor didString expectedDidPrefix of
          Inl e \<Rightarrow> Inl e
        | Inr did \<Rightarrow>
            if \<not> isShortForm did then
              (case getInitialStateFromDidString E didString methodName of
                 Inl e \<Rightarrow> Inl e
               | Inr initialState \<Rightarrow>
              (case constructCreateOperationFromInitialState E initialState of
                 Inl e \<Rightarrow> Inl e
               | Inr createOperation' \<Rightarrow>
              (case decodeAsBuffer E (uniqueSuffix did) of
                 Inl e \<Rightarrow> Inl e
               | Inr uniqueSuffixBuffer \<Rightarrow>
              (case getHashAlgorithmCode E uniqueSuffixBuffer of
                 Inl e \<Rightarrow> Inl e
               | Inr hashAlgorithmCode \<Rightarrow>
              (case decodeAsBuffer E (encodedSuffixData createOperation') of
                 Inl e \<Rightarrow> Inl e
               | Inr didUniqueSuffixDataBuffer \<Rightarrow>
              (case hash E didUniqueSuffixDataBuffer hashAlgorithmCode of
                 Inl e \<Rightarrow> Inl e
               | Inr multihash \<Rightarrow>
                   let didUniqueSuffixFromInitialState = encode E multihash in
                   if didUniqueSuffixFromInitialState \<noteq> uniqueSuffix did
                   then Inl DidUniqueSuffixFromInitialStateMismatch
                   else Inr (did \<lparr> createOperation := Some createOperation' \<rparr>)))))))
            else Inr did)"

section \<open>Values of the document composer\<close>

text \<open>
  Modelled from the spec: \<^verbatim>\<open>DocumentComposer\<close> is not among the sources, only
  its test suite is.  Its documents, keys, endpoints and results are loosely typed
  values (section 9), which the tests write as object and array literals, so the
  model has a datatype of such values.  An object is the list of its properties in
  insertion order.
\<close>

datatype json =
    JUndefined
  | JNull
  | JBoolean bool
  | JNumber int
  | JString string
  | JArray "json list"
  | JObject "(string \<times> json) list"

text \<open>\<^verbatim>\<open>v[name]\<close>: the property of an object, \<^verbatim>\<open>undefined\<close> when there is none.\<close>

definition field :: "string \<Rightarrow> json \<Rightarrow> json" where
  "field name v =
     (case v of
        JObject props \<Rightarrow> (case map_of props name of Some x \<Rightarrow> x | None \<Rightarrow> JUndefined)
      | _ \<Rightarrow> JUndefined)"

text \<open>\<^verbatim>\<open>Object.keys(v)\<close>.\<close>

definition propertyNames :: "json \<Rightarrow> string list" where
  "propertyNames v = (case v of JObject props \<Rightarrow> map fst props | _ \<Rightarrow> [])"

text \<open>The elements of an array; a value that is not an array has none.\<close>

definition arrayItems :: "json \<Rightarrow> json list" where
  "arrayItems v = (case v of JArray items \<Rightarrow> items | _ \<Rightarrow> [])"

text \<open>
  Modelled from the spec: the \<^verbatim>\<open>id\<close> of a public key or service endpoint is a
  Base64URL token (section 3), a string; \<open>idString\<close> reads it.
\<close>

definition idString :: "json \<Rightarrow> string" where
  "idString entry = (case field ''id'' entry of JString s \<Rightarrow> s | _ \<Rightarrow> [])"

text \<open>
  Modelled from the spec: \<^verbatim>\<open>usage\<close> of a public key is a set drawn from
  \<^verbatim>\<open>ops\<close>, \<^verbatim>\<open>general\<close>, \<^verbatim>\<open>auth\<close> (section 3); the tests write it as an array of
  strings.
\<close>

definition hasUsage :: "string \<Rightarrow> json \<Rightarrow> bool" where
  "hasUsage u publicKey = (JString u \<in> set (arrayItems (field ''usage'' publicKey)))"

text \<open>
  Modelled from the spec: \<^verbatim>\<open>DocumentModel\<close> (section 3) has the two sequences
  \<^verbatim>\<open>publicKeys\<close> and \<^verbatim>\<open>serviceEndpoints\<close>, either of which may be absent.
\<close>

record DocumentModel =
  publicKeys :: "json list option"
  serviceEndpoints :: "json list option"

text \<open>
  Modelled from the spec: \<^verbatim>\<open>DidState\<close> (section 3), with the fields the tests
  give it.  An \<^verbatim>\<open>undefined\<close> commitment hash is \<open>None\<close>.
\<close>

record DidState =
  document :: DocumentModel
  lastOperationTransactionNumber :: nat
  nextRecoveryCommitmentHash :: "string option"
  nextUpdateCommitmentHash :: "string option"
  recoveryKey :: json

text \<open>
  Modelled from the spec: a patch is a tagged variant over the four actions
  (section 3), each with the field of its action: the incoming entries, or the ids
  to remove.
\<close>

datatype Patch =
    AddPublicKeys "json list"
  | RemovePublicKeys "string list"
  | AddServiceEndpoints "json list"
  | RemoveServiceEndpoints "string list"

section \<open>Patch application\<close>

text \<open>Modelled from the spec: an absent \<^verbatim>\<open>publicKeys\<close> is treated as empty (section 3).\<close>

definition existingPublicKeys :: "DocumentModel \<Rightarrow> json list" where
  "existingPublicKeys d = (case publicKeys d of None \<Rightarrow> [] | Some ks \<Rightarrow> ks)"

text \<open>
  Modelled from the spec: \<^verbatim>\<open>add-public-keys\<close> (section 4.3).  For each incoming
  key, if an existing key shares its id, replace it in place; otherwise append.
\<close>

definition addPublicKey :: "json \<Rightarrow> json list \<Rightarrow> json list" where
  "addPublicKey incoming existing =
     (if field ''id'' incoming \<in> set (map (field ''id'') existing)
      then map (\<lambda>k. if field ''id'' k = field ''id'' incoming then incoming else k) existing
      else existing @ [incoming])"

text \<open>Modelled from the spec: the incoming keys are taken in the order given.\<close>

definition addPublicKeys :: "DocumentModel \<Rightarrow> json list \<Rightarrow> DocumentModel" where
  "addPublicKeys d incoming =
     d \<lparr> publicKeys :=
           Some (foldl (\<lambda>keys k. addPublicKey k keys) (existingPublicKeys d) incoming) \<rparr>"

text \<open>
  Modelled from the spec: \<^verbatim>\<open>remove-public-keys\<close> (section 4.3) filters out every
  existing key whose id is listed; an id that matches nothing is ignored.
\<close>

definition removePublicKeys :: "DocumentModel \<Rightarrow> string list \<Rightarrow> DocumentModel" where
  "removePublicKeys d ids =
     d \<lparr> publicKeys :=
           Some (filter (\<lambda>k. field ''id'' k \<notin> set (map JString ids)) (existingPublicKeys d)) \<rparr>"

text \<open>
  Modelled from the spec: \<^verbatim>\<open>add-service-endpoints\<close> (section 4.3) appends all
  incoming entries and initialises the collection when it is absent.
\<close>

definition addServiceEndpoints :: "DocumentModel \<Rightarrow> json list \<Rightarrow> DocumentModel" where
  "addServiceEndpoints d incoming =
     d \<lparr> serviceEndpoints :=
           Some ((case serviceEndpoints d of None \<Rightarrow> [] | Some es \<Rightarrow> es) @ incoming) \<rparr>"

text \<open>
  Modelled from the spec: \<^verbatim>\<open>remove-service-endpoints\<close> (section 4.3) filters out
  the matching ids and returns the document unchanged when it has no
  \<^verbatim>\<open>serviceEndpoints\<close> collection.
\<close>

definition removeServiceEndpoints :: "DocumentModel \<Rightarrow> string list \<Rightarrow> DocumentModel" where
  "removeServiceEndpoints d ids =
     (case serviceEndpoints d of
        None \<Rightarrow> d
      | Some es \<Rightarrow>
          d \<lparr> serviceEndpoints :=
                Some (filter (\<lambda>e. field ''id'' e \<notin> set (map JString ids)) es) \<rparr>)"

text \<open>Modelled from the spec: the dispatch of \<^verbatim>\<open>applyPatches\<close> on the action.\<close>

fun applyPatch :: "DocumentModel \<Rightarrow> Patch \<Rightarrow> DocumentModel" where
  "applyPatch d (AddPublicKeys ks) = addPublicKeys d ks"
| "applyPatch d (RemovePublicKeys ids) = removePublicKeys d ids"
| "applyPatch d (AddServiceEndpoints es) = addServiceEndpoints d es"
| "applyPatch d (RemoveServiceEndpoints ids) = removeServiceEndpoints d ids"

text \<open>
  Modelled from the spec: \<^verbatim>\<open>applyPatches\<close> (section 4.3) applies the patches
  strictly in the order given and returns the new document.
\<close>

definition applyPatches :: "DocumentModel \<Rightarrow> Patch list \<Rightarrow> DocumentModel" where
  "applyPatches d patches = foldl applyPatch d patches"

text \<open>
  Two functions that only the statement of the replace-or-append property uses.
  \<open>latest incoming k\<close> is the last incoming key that has the id of \<open>k\<close>, and \<open>k\<close>
  itself when there is none; \<open>firstOfEachId\<close> keeps, of the keys that share an id,
  the first.
\<close>

definition latest :: "json list \<Rightarrow> json \<Rightarrow> json" where
  "latest incoming k =
     (case find (\<lambda>n. field ''id'' n = field ''id'' k) (rev incoming) of
        Some n \<Rightarrow> n
      | None \<Rightarrow> k)"

fun firstOfEachId :: "json list \<Rightarrow> json list" where
  "firstOfEachId [] = []"
| "firstOfEachId (k # ks) =
     k # firstOfEachId (filter (\<lambda>n. field ''id'' n \<noteq> field ''id'' k) ks)"

section \<open>External document transformer\<close>

text \<open>
  Modelled from the spec: the type label of the protocol's ECDSA-over-secp256k1
  keys; the tests spell it.
\<close>

definition ecdsaSecp256k1KeyType :: string where
  "ecdsaSecp256k1KeyType = ''EcdsaSecp256k1VerificationKey2019''"

text \<open>
  Modelled from the spec: the full-object form of a key in the external document
  (section 4.4), with the properties the test of \<^verbatim>\<open>transformToExternalDocument\<close>
  expects: the id prefixed with \<^verbatim>\<open>#\<close>, an empty controller, the type and the key
  material under \<^verbatim>\<open>publicKeyJwk\<close>.
\<close>

definition didDocumentPublicKey :: "json \<Rightarrow> json" where
  "didDocumentPublicKey publicKey =
     JObject [(''id'', JString (''#'' @ idString publicKey)),
              (''controller'', JString []),
              (''type'', field ''type'' publicKey),
              (''publicKeyJwk'', field ''jwk'' publicKey)]"

text \<open>
  Modelled from the spec: an entry of \<^verbatim>\<open>methodMetadata.operationPublicKeys\<close>
  (section 4.4): the id prefixed with \<^verbatim>\<open>#\<close>, an empty controller, the fixed type
  label and \<^verbatim>\<open>publicKeyJwk\<close>.
\<close>

definition operationPublicKey :: "json \<Rightarrow> json" where
  "operationPublicKey publicKey =
     JObject [(''id'', JString (''#'' @ idString publicKey)),
              (''controller'', JString []),
              (''type'', JString ecdsaSecp256k1KeyType),
              (''publicKeyJwk'', field ''jwk'' publicKey)]"

text \<open>
  Modelled from the spec: what a key contributes to \<^verbatim>\<open>authentication\<close>
  (section 4.4).  A key usable for authentication that is also general-purpose is a
  bare reference to its \<^verbatim>\<open>publicKey\<close> entry; one without \<^verbatim>\<open>general\<close> usage
  has no such entry and is embedded in full.
\<close>

definition authenticationEntries :: "json \<Rightarrow> json list" where
  "authenticationEntries publicKey =
     (if hasUsage ''auth'' publicKey
      then (if hasUsage ''general'' publicKey
            then [JString (''#'' @ idString publicKey)]
            else [didDocumentPublicKey publicKey])
      else [])"

text \<open>
  Modelled from the spec: \<^verbatim>\<open>transformToExternalDocument\<close> (section 4.4).  A state
  without next recovery commitment is deactivated and yields the status object
  only.  Otherwise the keys with \<^verbatim>\<open>ops\<close> usage populate
  \<^verbatim>\<open>methodMetadata.operationPublicKeys\<close>, the keys with \<^verbatim>\<open>general\<close> usage the
  \<^verbatim>\<open>publicKey\<close> array, the keys with \<^verbatim>\<open>auth\<close> usage \<^verbatim>\<open>authentication\<close>;
  \<^verbatim>\<open>service\<close> is the document's \<^verbatim>\<open>serviceEndpoints\<close>, \<^verbatim>\<open>undefined\<close> when absent.
  The context identifiers are those of the test.
\<close>

definition transformToExternalDocument :: "DidState \<Rightarrow> string \<Rightarrow> json" where
  "transformToExternalDocument didState did =
     (if nextRecoveryCommitmentHash didState = None
      then JObject [(''status'', JString ''deactivated'')]
      else
        let keys = existingPublicKeys (document didState);
            operationPublicKeys = map operationPublicKey (filter (hasUsage ''ops'') keys);
            publicKey = map didDocumentPublicKey (filter (hasUsage ''general'') keys);
            authentication = concat (map authenticationEntries keys);
            didDocument =
              JObject [(''id'', JString did),
                       (''@context'',
                          JArray [JString ''https://www.w3.org/ns/did/v1'',
                                  JObject [(''@base'', JString did)]]),
                       (''service'',
                          (case serviceEndpoints (document didState) of
                             None \<Rightarrow> JUndefined
                           | Some es \<Rightarrow> JArray es)),
                       (''publicKey'', JArray publicKey),
                       (''authentication'', JArray authentication)]
        in JObject [(''@context'', JString ''https://www.w3.org/ns/did-resolution/v1''),
                    (''didDocument'', didDocument),
                    (''methodMetadata'',
                       JObject [(''operationPublicKeys'', JArray operationPublicKeys),
                                (''recoveryKey'', recoveryKey didState)])])"

section \<open>Document schema validator\<close>

text \<open>
  Modelled from the spec: the limits that section 4.2 and 4.3 call fixed without
  giving them, the key types other than the ECDSA one, and the test whether a string
  is a syntactically valid URL.  They are parameters of the validator.
\<close>

record Limits =
  maxIdLength :: nat
  otherKeyTypes :: "string list"
  maxServiceEndpointTypeLength :: nat
  maxServiceEndpointLength :: nat
  isValidUrl :: "string \<Rightarrow> bool"

text \<open>Modelled from the spec: the Base64URL character set.\<close>

definition isBase64UrlString :: "string \<Rightarrow> bool" where
  "isBase64UrlString s =
     list_all
       (\<lambda>c. c \<in> set ''ABCDEFGHIJKLMNOPQRSTUVWXYZabcdefghijklmnopqrstuvwxyz0123456789-_'') s"

text \<open>
  Modelled from the spec: an id must be a string, no longer than the maximum and in
  the Base64URL character set (sections 4.2 and 4.3).  The spec does not order the
  two format checks; the tests do: an id that is too long and has spaces in it is
  expected to fail with \<^verbatim>\<open>DocumentComposerIdTooLong\<close>, so the length is checked
  first.  The error codes are those of the tests.
\<close>

definition validateId :: "Limits \<Rightarrow> json \<Rightarrow> error + unit" where
  "validateId L v =
     (case v of
        JString s \<Rightarrow>
          if length s > maxIdLength L then Inl DocumentComposerIdTooLong
          else if \<not> isBase64UrlString s
            then Inl DocumentComposerIdNotUsingBase64UrlCharacterSet
          else Inr ()
      | _ \<Rightarrow> Inl DocumentComposerIdNotString)"

text \<open>
  Modelled from the spec: the type must be a known key type, and the ECDSA type
  when the key carries \<^verbatim>\<open>ops\<close> usage (section 4.2).
\<close>

definition validateKeyType :: "Limits \<Rightarrow> json \<Rightarrow> error + unit" where
  "validateKeyType L publicKey =
     (if hasUsage ''ops'' publicKey
      then (if field ''type'' publicKey \<noteq> JString ecdsaSecp256k1KeyType
            then Inl DocumentComposerOperationKeyTypeNotEs256k
            else Inr ())
      else (if field ''type'' publicKey
                 \<notin> set (map JString (ecdsaSecp256k1KeyType # otherKeyTypes L))
            then Inl DocumentComposerPublicKeyTypeMissingOrUnknown
            else Inr ()))"

text \<open>
  Modelled from the spec: \<^verbatim>\<open>usage\<close> must be an array of one to three entries, all
  drawn from \<^verbatim>\<open>ops\<close>, \<^verbatim>\<open>general\<close>, \<^verbatim>\<open>auth\<close> (section 4.2).
\<close>

definition validateUsage :: "json \<Rightarrow> error + unit" where
  "validateUsage publicKey =
     (case field ''usage'' publicKey of
        JArray usage \<Rightarrow>
          if length usage = 0 then Inl DocumentComposerPublicKeyUsageMissingOrUnknown
          else if length usage > 3 then Inl DocumentComposerPublicKeyUsageExceedsMaxLength
          else if \<not> list_all (\<lambda>u. u \<in> set (map JString [''ops'', ''general'', ''auth''])) usage
            then Inl DocumentComposerPublicKeyInvalidUsage
          else Inr ()
      | _ \<Rightarrow> Inl DocumentComposerPublicKeyUsageMissingOrUnknown)"

text \<open>
  Modelled from the spec: the per-key rules of section 4.2 in the order of the spec,
  first failure wins: the id format, the uniqueness of the id among the keys seen so
  far, the type, the usage.
\<close>

definition validatePublicKey :: "Limits \<Rightarrow> json list \<Rightarrow> json \<Rightarrow> error + unit" where
  "validatePublicKey L seenIds publicKey =
     (case validateId L (field ''id'' publicKey) of
        Inl e \<Rightarrow> Inl e
      | Inr _ \<Rightarrow>
          if field ''id'' publicKey \<in> set seenIds then Inl DocumentComposerPublicKeyIdDuplicated
          else (case validateKeyType L publicKey of
                  Inl e \<Rightarrow> Inl e
                | Inr _ \<Rightarrow> validateUsage publicKey))"

text \<open>Modelled from the spec: each entry of \<^verbatim>\<open>publicKeys\<close> is validated in turn.\<close>

fun validatePublicKeyEntries :: "Limits \<Rightarrow> json list \<Rightarrow> json list \<Rightarrow> error + unit" where
  "validatePublicKeyEntries L seenIds [] = Inr ()"
| "validatePublicKeyEntries L seenIds (publicKey # rest) =
     (case validatePublicKey L seenIds publicKey of
        Inl e \<Rightarrow> Inl e
      | Inr _ \<Rightarrow> validatePublicKeyEntries L (field ''id'' publicKey # seenIds) rest)"

text \<open>Modelled from the spec: \<^verbatim>\<open>publicKeys\<close>, if present, must be an array.\<close>

definition validatePublicKeys :: "Limits \<Rightarrow> json \<Rightarrow> error + unit" where
  "validatePublicKeys L v =
     (case v of
        JArray entries \<Rightarrow> validatePublicKeyEntries L [] entries
      | _ \<Rightarrow> Inl DocumentComposerPublicKeysNotArray)"

text \<open>
  Modelled from the spec: the service rules of section 4.3.  An entry has the
  properties \<^verbatim>\<open>id\<close>, \<^verbatim>\<open>type\<close> and \<^verbatim>\<open>serviceEndpoint\<close> and no other; the id has
  the id format; the type is a string within its limit; the endpoint is a string
  within its limit that is a valid URL.
\<close>

definition validateServiceEndpoint :: "Limits \<Rightarrow> json \<Rightarrow> error + unit" where
  "validateServiceEndpoint L entry =
     (if \<not> (length (propertyNames entry) = 3 \<and>
             list_all (\<lambda>name. name \<in> set [''id'', ''type'', ''serviceEndpoint''])
               (propertyNames entry))
      then Inl DocumentComposerServiceEndpointMissingOrUnknownProperty
      else
        case validateId L (field ''id'' entry) of
          Inl e \<Rightarrow> Inl e
        | Inr _ \<Rightarrow>
            (case field ''type'' entry of
               JString t \<Rightarrow>
                 if length t > maxServiceEndpointTypeLength L
                 then Inl DocumentComposerPatchServiceEndpointTypeTooLong
                 else (case field ''serviceEndpoint'' entry of
                         JString url \<Rightarrow>
                           if length url > maxServiceEndpointLength L
                           then Inl DocumentComposerPatchServiceEndpointServiceEndpointTooLong
                           else if \<not> isValidUrl L url
                           then Inl DocumentComposerPatchServiceEndpointServiceEndpointNotValidUrl
                           else Inr ()
                       | _ \<Rightarrow> Inl DocumentComposerPatchServiceEndpointServiceEndpointNotString)
             | _ \<Rightarrow> Inl DocumentComposerPatchServiceEndpointTypeNotString))"

text \<open>Modelled from the spec: each entry of \<^verbatim>\<open>serviceEndpoints\<close> is validated in turn.\<close>

fun validateServiceEndpointEntries :: "Limits \<Rightarrow> json list \<Rightarrow> error + unit" where
  "validateServiceEndpointEntries L [] = Inr ()"
| "validateServiceEndpointEntries L (entry # rest) =
     (case validateServiceEndpoint L entry of
        Inl e \<Rightarrow> Inl e
      | Inr _ \<Rightarrow> validateServiceEndpointEntries L rest)"

text \<open>Modelled from the spec: \<^verbatim>\<open>serviceEndpoints\<close>, if present, must be an array.\<close>

definition validateServiceEndpoints :: "Limits \<Rightarrow> json \<Rightarrow> error + unit" where
  "validateServiceEndpoints L v =
     (case v of
        JArray entries \<Rightarrow> validateServiceEndpointEntries L entries
      | _ \<Rightarrow> Inl DocumentComposerPatchServiceEndpointsNotArray)"

text \<open>
  Modelled from the spec: \<^verbatim>\<open>validateDocument\<close> (section 4.2), the rules in the
  order of the spec, first failure wins.  The document is \<^verbatim>\<open>undefined\<close> (\<open>None\<close>)
  or an object, given by its properties; the recognised properties are the two of
  \<^verbatim>\<open>DocumentModel\<close>.
\<close>

definition validateDocument :: "Limits \<Rightarrow> (string \<times> json) list option \<Rightarrow> error + unit" where
  "validateDocument L document' =
     (case document' of
        None \<Rightarrow> Inl DocumentComposerDocumentMissing
      | Some props \<Rightarrow>
          if \<not> list_all (\<lambda>name. name \<in> set [''publicKeys'', ''serviceEndpoints''])
                 (map fst props)
          then Inl DocumentComposerUnknownPropertyInDocument
          else
            case (case map_of props ''publicKeys'' of
                    None \<Rightarrow> Inr ()
                  | Some v \<Rightarrow> validatePublicKeys L v) of
              Inl e \<Rightarrow> Inl e
            | Inr _ \<Rightarrow>
                (case map_of props ''serviceEndpoints'' of
                   None \<Rightarrow> Inr ()
                 | Some v \<Rightarrow> validateServiceEndpoints L v))"

section \<open>Example collaborators and example data\<close>

text \<open>
  The theorems below hold for every value of \<open>collaborators\<close> and of \<open>Limits\<close>.
  To run the model on concrete inputs the examples fix one value of each.

  \<open>sampleSearchParams\<close> reads a query the way the platform's \<^verbatim>\<open>URL\<close> does for a
  string without percent-escapes and without \<^verbatim>\<open>+\<close>: leading and trailing
  control characters and spaces are stripped and tabs and newlines removed, the
  string needs a scheme, the fragment starts at the first \<^verbatim>\<open>#\<close>, the query at the
  first \<^verbatim>\<open>?\<close> before it, the parameters are the non-empty pieces between
  \<^verbatim>\<open>&\<close>, and a piece is split at its first \<^verbatim>\<open>=\<close>.
\<close>

definition isC0ControlOrSpace :: "char \<Rightarrow> bool" where
  "isC0ControlOrSpace c = ((of_char c :: nat) \<le> 32)"

definition isTabOrNewline :: "char \<Rightarrow> bool" where
  "isTabOrNewline c = ((of_char c :: nat) \<in> set [9, 10, 13])"

definition trimUrlInput :: "string \<Rightarrow> string" where
  "trimUrlInput s =
     filter (\<lambda>c. \<not> isTabOrNewline c)
       (rev (dropWhile isC0ControlOrSpace (rev (dropWhile isC0ControlOrSpace s))))"

definition isAsciiAlpha :: "char \<Rightarrow> bool" where
  "isAsciiAlpha c = (c \<in> set ''abcdefghijklmnopqrstuvwxyzABCDEFGHIJKLMNOPQRSTUVWXYZ'')"

definition isSchemeChar :: "char \<Rightarrow> bool" where
  "isSchemeChar c = (isAsciiAlpha c \<or> c \<in> set ''0123456789+-.'')"

definition hasScheme :: "string \<Rightarrow> bool" where
  "hasScheme s =
     (case s of
        [] \<Rightarrow> False
      | c # cs \<Rightarrow> isAsciiAlpha c \<and>
          (case dropWhile isSchemeChar cs of [] \<Rightarrow> False | d # _ \<Rightarrow> d = CHR '':''))"

definition queryPair :: "string \<Rightarrow> string \<times> string" where
  "queryPair piece =
     (let name = takeWhile (\<lambda>c. c \<noteq> CHR ''='') piece
      in (name, drop (length name + 1) piece))"

definition sampleSearchParams :: "string \<Rightarrow> (string \<times> string) list option" where
  "sampleSearchParams input =
     (let s = trimUrlInput input in
      if \<not> hasScheme s then None
      else
        let beforeFragment = takeWhile (\<lambda>c. c \<noteq> CHR ''#'') s;
            i = indexOf beforeFragment CHR ''?''
        in if i < 0 then Some []
           else Some (map queryPair
                  (filter (\<lambda>piece. piece \<noteq> [])
                     (split CHR ''&'' (drop (nat i + 1) beforeFragment)))))"

text \<open>
  The example parser rejects an empty part and copies \<^verbatim>\<open>suffix_data\<close> into
  \<^verbatim>\<open>encodedSuffixData\<close>.  The example encoder maps a character to its code and
  back; the example hash puts the algorithm code before the reversed content, and
  the algorithm code of a hash is its first byte.
\<close>

definition sampleParseObject :: "create_operation_request \<Rightarrow> error + create_operation" where
  "sampleParseObject request =
     (if suffix_data request = [] \<or> delta request = []
      then Inl (CollaboratorError ''parseObject'')
      else Inr \<lparr> encodedSuffixData = suffix_data request \<rparr>)"

definition sampleDecodeAsBuffer :: "string \<Rightarrow> error + buffer" where
  "sampleDecodeAsBuffer s = Inr (map (\<lambda>c. of_nat (of_char c)) s)"

definition sampleEncode :: "buffer \<Rightarrow> string" where
  "sampleEncode b = map (\<lambda>w. char_of (unat w)) b"

definition sampleGetHashAlgorithmCode :: "buffer \<Rightarrow> error + nat" where
  "sampleGetHashAlgorithmCode b =
     (case b of [] \<Rightarrow> Inl (CollaboratorError ''multihash'') | w # _ \<Rightarrow> Inr (unat w))"

definition sampleHash :: "buffer \<Rightarrow> nat \<Rightarrow> error + buffer" where
  "sampleHash content code = Inr (of_nat code # rev content)"

definition sampleCollaborators :: collaborators where
  "sampleCollaborators =
     \<lparr> searchParams = sampleSearchParams,
       parseObject = sampleParseObject,
       decodeAsBuffer = sampleDecodeAsBuffer,
       getHashAlgorithmCode = sampleGetHashAlgorithmCode,
       hash = sampleHash,
       encode = sampleEncode \<rparr>"

definition sampleLimits :: Limits where
  "sampleLimits =
     \<lparr> maxIdLength = 20,
       otherKeyTypes = [],
       maxServiceEndpointTypeLength = 30,
       maxServiceEndpointLength = 100,
       isValidUrl = (\<lambda>url. sampleSearchParams url \<noteq> None) \<rparr>"

text \<open>
  The keys and the state of the tests of \<^verbatim>\<open>transformToExternalDocument\<close>: a
  signing key with every usage and a key with \<^verbatim>\<open>auth\<close> usage only.
\<close>

definition sampleJwk :: "string \<Rightarrow> json" where
  "sampleJwk x =
     JObject [(''kty'', JString ''EC''), (''crv'', JString ''secp256k1''),
              (''x'', JString x), (''y'', JString (rev x))]"

definition samplePublicKey :: "string \<Rightarrow> string list \<Rightarrow> json" where
  "samplePublicKey name usage =
     JObject [(''id'', JString name),
              (''type'', JString ecdsaSecp256k1KeyType),
              (''jwk'', sampleJwk name),
              (''usage'', JArray (map JString usage))]"

definition sampleDocument :: DocumentModel where
  "sampleDocument =
     \<lparr> publicKeys = Some [samplePublicKey ''anySigningKey'' [''ops'', ''general'', ''auth''],
                          samplePublicKey ''authePbulicKey'' [''auth'']],
       serviceEndpoints = None \<rparr>"

definition sampleDidState :: DidState where
  "sampleDidState =
     \<lparr> document = sampleDocument,
       lastOperationTransactionNumber = 123,
       nextRecoveryCommitmentHash = Some ''anyCommitmentHash'',
       nextUpdateCommitmentHash = Some ''anyCommitmentHash'',
       recoveryKey = sampleJwk ''recovery'' \<rparr>"

text \<open>The service endpoints of the test of \<^verbatim>\<open>removeServiceEndpoints\<close>.\<close>

definition sampleServiceEndpoint :: "string \<Rightarrow> json" where
  "sampleServiceEndpoint name =
     JObject [(''id'', JString name), (''type'', JString ''t''),
              (''serviceEndpoint'', JString ''se'')]"

section \<open>Facts about the string operations\<close>

lemma split_nonempty: "split c s \<noteq> []"
  by (induction s) (auto split: list.splits)

lemma length_split: "length (split c s) = Suc (length (filter (\<lambda>x. x = c) s))"
  by (induction s) (auto split: list.splits simp: split_nonempty)

lemma length_split_no_separator: "c \<notin> set s \<Longrightarrow> length (split c s) < 2"
  by (auto simp: length_split filter_empty_conv)

lemma length_split_separator: "c \<in> set s \<Longrightarrow> 2 \<le> length (split c s)"
  by (auto simp: length_split filter_empty_conv Suc_le_eq)

lemma split_no_separator: "c \<notin> set a \<Longrightarrow> split c a = [a]"
  by (induction a) auto

lemma split_append: "c \<notin> set a \<Longrightarrow> split c (a @ c # b) = a # split c b"
  by (induction a) auto

lemma split_one_separator:
  "c \<notin> set a \<Longrightarrow> c \<notin> set b \<Longrightarrow> split c (a @ c # b) = [a, b]"
  by (simp add: split_append split_no_separator)

lemma indexOf_ge: "- 1 \<le> indexOf s c"
  by (induction s) (auto simp: Let_def)

lemma indexOf_neg_iff: "indexOf s c < 0 \<longleftrightarrow> c \<notin> set s"
proof (induction s)
  case Nil
  then show ?case by simp
next
  case (Cons x xs)
  then show ?case
    using indexOf_ge [of xs c] by (auto simp: Let_def)
qed

lemma indexOf_minus_one_iff: "indexOf s c = - 1 \<longleftrightarrow> c \<notin> set s"
  using indexOf_ge [of s c] indexOf_neg_iff [of s c] by auto

lemma indexOf_append_first: "c \<notin> set a \<Longrightarrow> indexOf (a @ c # b) c = int (length a)"
  by (induction a) (auto simp: Let_def)

lemma lastIndexOf_append_last: "c \<notin> set b \<Longrightarrow> lastIndexOf (a @ c # b) c = int (length a)"
  using indexOf_append_first [of c "rev b" "rev a"]
  by (simp add: lastIndexOf_def Let_def)

section \<open>Facts about the stages of \<^verbatim>\<open>Did.create\<close>\<close>

lemma Did_constructor_Inr:
  assumes "Did_constructor s p = Inr d"
  shows "uniqueSuffix d \<noteq> []" "shortForm d = p @ uniqueSuffix d" "didMethodName d = p"
    "createOperation d = None" "isShortForm d = (CHR ''?'' \<notin> set s)"
  using assms
  by (auto simp: Did_constructor_def Let_def indexOf_neg_iff split: if_splits)

lemma Did_constructor_long_form:
  assumes "CHR ''?'' \<notin> set p" "CHR ''?'' \<notin> set S" "S \<noteq> []"
  shows "Did_constructor (p @ S @ CHR ''?'' # q) p =
         Inr \<lparr> isShortForm = False, didMethodName = p, uniqueSuffix = S,
               createOperation = None, shortForm = p @ S \<rparr>"
proof -
  have "indexOf ((p @ S) @ CHR ''?'' # q) CHR ''?'' = int (length (p @ S))"
    using assms(1,2) by (intro indexOf_append_first) simp
  then have i: "indexOf (p @ S @ CHR ''?'' # q) CHR ''?'' = int (length p) + int (length S)"
    by simp
  show ?thesis
    using assms(3)
    by (simp add: Did_constructor_def startsWith_def substring_def clampIndex_def i Let_def)
qed

lemma forEachQueryParam_start:
  "forEachQueryParam methodName params 0 None =
     (case params of
        [] \<Rightarrow> Inr (0, None)
      | (key, value) # rest \<Rightarrow>
          if key \<noteq> ''-'' @ methodName @ ''-'' @ initialStateParameterSuffix
          then Inl DidLongFormOnlyInitialStateParameterIsAllowed
          else (case rest of
                  [] \<Rightarrow> Inr (1, Some value)
                | _ # _ \<Rightarrow> Inl DidLongFormOnlyOneQueryParamAllowed))"
  by (cases params; cases "tl params") (auto simp: Let_def split: list.splits)

lemma getInitialState_single:
  assumes "searchParams E s = Some [(''-'' @ m @ ''-initial-state'', v)]"
  shows "getInitialStateFromDidString E s m = Inr v"
  using assms
  by (simp add: getInitialStateFromDidString_def forEachQueryParam_start
      initialStateParameterSuffix_def)

text \<open>
  The four outcomes of \<^verbatim>\<open>constructCreateOperationFromInitialState\<close>: no dot; two
  dots or more (\<open>a\<close> ends at the first dot, \<open>c\<close> starts after the last); one dot
  that ends the value; one dot with something after it.  In the last case the part
  before the dot may be empty.
\<close>

lemma construct_no_dot:
  "CHR ''.'' \<notin> set v \<Longrightarrow>
   constructCreateOperationFromInitialState E v = Inl DidInitialStateValueContainsNoDot"
  by (simp add: constructCreateOperationFromInitialState_def indexOf_minus_one_iff)

lemma construct_more_than_one_dot:
  assumes "CHR ''.'' \<notin> set a" "CHR ''.'' \<notin> set c"
  shows "constructCreateOperationFromInitialState E (a @ CHR ''.'' # b @ CHR ''.'' # c) =
         Inl DidInitialStateValueContainsMoreThanOneDot"
proof -
  let ?v = "a @ CHR ''.'' # b @ CHR ''.'' # c"
  have first: "indexOf ?v CHR ''.'' = int (length a)"
    using assms(1) by (rule indexOf_append_first)
  have "lastIndexOf ((a @ CHR ''.'' # b) @ CHR ''.'' # c) CHR ''.'' =
        int (length (a @ CHR ''.'' # b))"
    using assms(2) by (rule lastIndexOf_append_last)
  then have last: "lastIndexOf ?v CHR ''.'' = int (length a) + 1 + int (length b)"
    by simp
  show ?thesis
    by (simp add: constructCreateOperationFromInitialState_def first last Let_def)
qed

lemma construct_trailing_dot:
  assumes "CHR ''.'' \<notin> set a"
  shows "constructCreateOperationFromInitialState E (a @ [CHR ''.'']) =
         Inl DidInitialStateValueDoesNotContainTwoParts"
proof -
  have first: "indexOf (a @ [CHR ''.'']) CHR ''.'' = int (length a)"
    using assms by (rule indexOf_append_first)
  have last: "lastIndexOf (a @ [CHR ''.'']) CHR ''.'' = int (length a)"
    by (rule lastIndexOf_append_last) simp
  show ?thesis
    by (simp add: constructCreateOperationFromInitialState_def first last Let_def)
qed

lemma construct_one_dot:
  assumes "CHR ''.'' \<notin> set a" "CHR ''.'' \<notin> set b" "b \<noteq> []"
  shows "constructCreateOperationFromInitialState E (a @ CHR ''.'' # b) =
         parseObject E \<lparr> type' = Create, suffix_data = a, delta = b \<rparr>"
proof -
  have first: "indexOf (a @ CHR ''.'' # b) CHR ''.'' = int (length a)"
    using assms(1) by (rule indexOf_append_first)
  have last: "lastIndexOf (a @ CHR ''.'' # b) CHR ''.'' = int (length a)"
    using assms(2) by (rule lastIndexOf_append_last)
  have parts: "split CHR ''.'' (a @ CHR ''.'' # b) = [a, b]"
    using assms(1,2) by (rule split_one_separator)
  show ?thesis
    using assms(3)
    by (simp add: constructCreateOperationFromInitialState_def first last parts Let_def)
qed

section \<open>The expected prefix\<close>

text \<open>
  C10.  \<^verbatim>\<open>Did.create\<close> splits \<^verbatim>\<open>expectedDidPrefix\<close> at the colons before it looks
  at the DID string: an expected prefix with no colon in it has a single part, and
  \<^verbatim>\<open>Did.create\<close> fails with \<^verbatim>\<open>DidInvalidMethodName\<close>, whatever the DID string and
  whatever the collaborators do.
\<close>

theorem create_prefix_without_colon:
  "CHR '':'' \<notin> set expectedDidPrefix \<Longrightarrow>
   create E didString expectedDidPrefix = Inl DidInvalidMethodName"
  using length_split_no_separator [of "CHR '':''" expectedDidPrefix]
  by (simp add: create_def)

theorem create_prefix_without_colon_witness:
  "CHR '':'' \<notin> set ''sidetree'' \<and>
   create sampleCollaborators ''did:sidetree:abc'' ''sidetree'' = Inl DidInvalidMethodName"
  using create_prefix_without_colon [of "''sidetree''" sampleCollaborators "''did:sidetree:abc''"]
  by simp

section \<open>Invariants of a constructed \<^verbatim>\<open>Did\<close>\<close>

text \<open>
  C8.  A \<^verbatim>\<open>Did\<close> that \<^verbatim>\<open>Did.create\<close> returns, for a short-form or a long-form
  string, has a non-empty \<^verbatim>\<open>uniqueSuffix\<close>, has the expected prefix as
  \<^verbatim>\<open>didMethodName\<close> and \<^verbatim>\<open>didMethodName + uniqueSuffix\<close> as \<^verbatim>\<open>shortForm\<close>, and has
  a \<^verbatim>\<open>createOperation\<close> exactly when the DID string contains a question mark.  An
  empty suffix makes the construction fail with \<^verbatim>\<open>DidNoUniqueSuffix\<close>: for an
  expected prefix with a colon and without question mark, in short form when the
  string is the prefix alone, in long form when the question mark follows the prefix
  at once.
\<close>

theorem create_invariants:
  "(create E didString expectedDidPrefix = Inr did \<longrightarrow>
      uniqueSuffix did \<noteq> [] \<and>
      didMethodName did = expectedDidPrefix \<and>
      shortForm did = didMethodName did @ uniqueSuffix did \<and>
      (createOperation did \<noteq> None) = (CHR ''?'' \<in> set didString)) \<and>
   (CHR '':'' \<in> set expectedDidPrefix \<and> CHR ''?'' \<notin> set expectedDidPrefix \<longrightarrow>
      create E expectedDidPrefix expectedDidPrefix = Inl DidNoUniqueSuffix \<and>
      create E (expectedDidPrefix @ CHR ''?'' # query) expectedDidPrefix = Inl DidNoUniqueSuffix)"
proof (intro conjI impI)
  assume ok: "create E didString expectedDidPrefix = Inr did"
  then obtain d0 where c: "Did_constructor didString expectedDidPrefix = Inr d0"
    and long: "\<not> isShortForm d0 \<longrightarrow> (\<exists>op. did = d0 \<lparr> createOperation := Some op \<rparr>)"
    and short: "isShortForm d0 \<longrightarrow> did = d0"
    by (auto simp: create_def Let_def split: if_splits sum.splits)
  note f = Did_constructor_Inr [OF c]
  show "uniqueSuffix did \<noteq> []"
    using f long short by (cases "isShortForm d0") auto
  show "didMethodName did = expectedDidPrefix"
    using f long short by (cases "isShortForm d0") auto
  show "shortForm did = didMethodName did @ uniqueSuffix did"
    using f long short by (cases "isShortForm d0") auto
  show "(createOperation did \<noteq> None) = (CHR ''?'' \<in> set didString)"
    using f long short by (cases "isShortForm d0") auto
next
  assume a: "CHR '':'' \<in> set expectedDidPrefix \<and> CHR ''?'' \<notin> set expectedDidPrefix"
  then have two: "\<not> length (split CHR '':'' expectedDidPrefix) < 2"
    using length_split_separator [of "CHR '':''" expectedDidPrefix] by simp
  have q: "indexOf expectedDidPrefix CHR ''?'' < 0"
    using a by (simp add: indexOf_neg_iff)
  show "create E expectedDidPrefix expectedDidPrefix = Inl DidNoUniqueSuffix"
    using two q
    by (simp add: create_def Did_constructor_def startsWith_def substringFrom_def
        substring_def clampIndex_def Let_def)
  have i: "indexOf (expectedDidPrefix @ CHR ''?'' # query) CHR ''?'' =
           int (length expectedDidPrefix)"
    using a by (simp add: indexOf_append_first)
  show "create E (expectedDidPrefix @ CHR ''?'' # query) expectedDidPrefix = Inl DidNoUniqueSuffix"
    using two i
    by (simp add: create_def Did_constructor_def startsWith_def
        substring_def clampIndex_def Let_def)
qed

theorem create_invariants_witness:
  "create sampleCollaborators ''did:method:abc'' ''did:method:'' =
     Inr \<lparr> isShortForm = True, didMethodName = ''did:method:'', uniqueSuffix = ''abc'',
           createOperation = None, shortForm = ''did:method:abc'' \<rparr> \<and>
   uniqueSuffix \<lparr> isShortForm = True, didMethodName = ''did:method:'', uniqueSuffix = ''abc'',
           createOperation = None, shortForm = ''did:method:abc'' \<rparr> \<noteq> [] \<and>
   CHR '':'' \<in> set ''did:method:'' \<and> CHR ''?'' \<notin> set ''did:method:'' \<and>
   create sampleCollaborators ''did:method:'' ''did:method:'' = Inl DidNoUniqueSuffix \<and>
   create sampleCollaborators ''did:method:?-method-initial-state=x.y'' ''did:method:'' =
     Inl DidNoUniqueSuffix"
proof -
  let ?E = sampleCollaborators
  let ?d = "\<lparr> isShortForm = True, didMethodName = ''did:method:'', uniqueSuffix = ''abc'',
           createOperation = None, shortForm = ''did:method:abc'' \<rparr>"
  have ok: "create ?E ''did:method:abc'' ''did:method:'' = Inr ?d"
    by code_simp
  have pre: "CHR '':'' \<in> set ''did:method:'' \<and> CHR ''?'' \<notin> set ''did:method:''"
    by simp
  note inv = create_invariants [of ?E "''did:method:abc''" "''did:method:''" ?d
      "''-method-initial-state=x.y''"]
  from inv ok have "uniqueSuffix ?d \<noteq> []" by blast
  moreover from inv pre
  have "create ?E ''did:method:'' ''did:method:'' = Inl DidNoUniqueSuffix \<and>
        create ?E (''did:method:'' @ CHR ''?'' # ''-method-initial-state=x.y'') ''did:method:'' =
          Inl DidNoUniqueSuffix"
    by blast
  ultimately show ?thesis using ok pre by simp
qed

section \<open>The parts of the initial state\<close>

text \<open>
  C2.  The claim is that an initial-state value with an empty part fails with
  \<^verbatim>\<open>DidInitialStateValueDoesNotContainTwoParts\<close> before the creation-operation
  parser is invoked.  The code checks whether the dot is the last character and
  never whether it is the first: the value \<^verbatim>\<open>.delta\<close>, whose suffix-data part is
  empty, passes the three checks and is handed to the parser with an empty
  \<^verbatim>\<open>suffix_data\<close>.
\<close>

theorem initial_state_leading_dot_reaches_parser:
  "constructCreateOperationFromInitialState E ''.delta'' =
   parseObject E \<lparr> type' = Create, suffix_data = [], delta = ''delta'' \<rparr>"
  using construct_one_dot [of "[]" "''delta''" E] by simp

theorem initial_state_leading_dot_reaches_parser_witness:
  "constructCreateOperationFromInitialState sampleCollaborators ''.delta'' =
     Inl (CollaboratorError ''parseObject'') \<and>
   create sampleCollaborators ''did:method:abc?-method-initial-state=.delta'' ''did:method:'' =
     Inl (CollaboratorError ''parseObject'') \<and>
   create sampleCollaborators ''did:method:abc?-method-initial-state=suffixData.'' ''did:method:'' =
     Inl DidInitialStateValueDoesNotContainTwoParts"
proof -
  have p: "parseObject sampleCollaborators \<lparr> type' = Create, suffix_data = [], delta = ''delta'' \<rparr> =
      Inl (CollaboratorError ''parseObject'')"
    by code_simp
  have 1: "constructCreateOperationFromInitialState sampleCollaborators ''.delta'' =
      Inl (CollaboratorError ''parseObject'')"
    using initial_state_leading_dot_reaches_parser [of sampleCollaborators] p by simp
  have 2: "create sampleCollaborators ''did:method:abc?-method-initial-state=.delta''
      ''did:method:'' = Inl (CollaboratorError ''parseObject'')"
    by code_simp
  have 3: "create sampleCollaborators ''did:method:abc?-method-initial-state=suffixData.''
      ''did:method:'' = Inl DidInitialStateValueDoesNotContainTwoParts"
    by code_simp
  from 1 2 3 show ?thesis by simp
qed

section \<open>The query of a long-form DID\<close>

text \<open>
  C3, as the code has it.  Take a long-form DID string that passes the constructor
  and parses as a URL, and let \<open>params\<close> be its query parameters.  With no
  parameter \<^verbatim>\<open>Did.create\<close> fails with \<^verbatim>\<open>DidLongFormNoInitialStateFound\<close>.  When
  the key of the first parameter is not \<^verbatim>\<open>-<method-name>-initial-state\<close> it fails
  with \<^verbatim>\<open>DidLongFormOnlyInitialStateParameterIsAllowed\<close>, however many parameters
  follow.  When the first key is the expected one and a second parameter follows it
  fails with \<^verbatim>\<open>DidLongFormOnlyOneQueryParamAllowed\<close>.  So \<^verbatim>\<open>Did.create\<close> returns
  a \<^verbatim>\<open>Did\<close> only when the query is exactly one parameter with the expected key.
\<close>

theorem create_query_parameters:
  assumes parts: "2 \<le> length (split CHR '':'' expectedDidPrefix)"
    and long: "Did_constructor didString expectedDidPrefix = Inr did" "\<not> isShortForm did"
    and url: "searchParams E didString = Some params"
    and key: "expectedKey = ''-'' @ split CHR '':'' expectedDidPrefix ! 1 @ ''-initial-state''"
  shows "(params = [] \<longrightarrow>
            create E didString expectedDidPrefix = Inl DidLongFormNoInitialStateFound) \<and>
         (\<forall>k v rest. params = (k, v) # rest \<and> k \<noteq> expectedKey \<longrightarrow>
            create E didString expectedDidPrefix =
              Inl DidLongFormOnlyInitialStateParameterIsAllowed) \<and>
         (\<forall>v second rest. params = (expectedKey, v) # second # rest \<longrightarrow>
            create E didString expectedDidPrefix = Inl DidLongFormOnlyOneQueryParamAllowed) \<and>
         (\<forall>d. create E didString expectedDidPrefix = Inr d \<longrightarrow>
            (\<exists>v. params = [(expectedKey, v)]))"
proof -
  let ?m = "split CHR '':'' expectedDidPrefix ! 1"
  have c: "create E didString expectedDidPrefix = Inl e"
    if "getInitialStateFromDidString E didString ?m = Inl e" for e
    using parts long that by (simp add: create_def Let_def)
  have g: "getInitialStateFromDidString E didString ?m =
      (case params of
        [] \<Rightarrow> Inl DidLongFormNoInitialStateFound
      | (k, v) # rest \<Rightarrow>
          if k \<noteq> expectedKey then Inl DidLongFormOnlyInitialStateParameterIsAllowed
          else (case rest of [] \<Rightarrow> Inr v | _ # _ \<Rightarrow> Inl DidLongFormOnlyOneQueryParamAllowed))"
    by (simp add: getInitialStateFromDidString_def url forEachQueryParam_start key
        initialStateParameterSuffix_def split: list.splits)
  have 1: "params = [] \<longrightarrow>
            create E didString expectedDidPrefix = Inl DidLongFormNoInitialStateFound"
    using c g by simp
  have 2: "\<forall>k v rest. params = (k, v) # rest \<and> k \<noteq> expectedKey \<longrightarrow>
            create E didString expectedDidPrefix =
              Inl DidLongFormOnlyInitialStateParameterIsAllowed"
    using c g by simp
  have 3: "\<forall>v second rest. params = (expectedKey, v) # second # rest \<longrightarrow>
            create E didString expectedDidPrefix = Inl DidLongFormOnlyOneQueryParamAllowed"
    using c g by simp
  have 4: "\<forall>d. create E didString expectedDidPrefix = Inr d \<longrightarrow>
            (\<exists>v. params = [(expectedKey, v)])"
  proof (intro allI impI)
    fix d assume ok: "create E didString expectedDidPrefix = Inr d"
    then obtain v where "getInitialStateFromDidString E didString ?m = Inr v"
      using c by (cases "getInitialStateFromDidString E didString ?m") auto
    then show "\<exists>v. params = [(expectedKey, v)]"
      unfolding g by (auto split: list.splits if_splits)
  qed
  show ?thesis using 1 2 3 4 by blast
qed

theorem create_query_parameters_witness:
  "searchParams sampleCollaborators ''did:method:abc?-method-initial-state=x.y&a=1'' =
     Some [(''-method-initial-state'', ''x.y''), (''a'', ''1'')] \<and>
   create sampleCollaborators ''did:method:abc?-method-initial-state=x.y&a=1'' ''did:method:'' =
     Inl DidLongFormOnlyOneQueryParamAllowed"
proof -
  let ?E = sampleCollaborators
  let ?s = "''did:method:abc?-method-initial-state=x.y&a=1''"
  let ?p = "''did:method:''"
  have parts: "2 \<le> length (split CHR '':'' ?p)" by simp
  have long: "Did_constructor ?s ?p =
      Inr \<lparr> isShortForm = False, didMethodName = ?p, uniqueSuffix = ''abc'',
            createOperation = None, shortForm = ''did:method:abc'' \<rparr>"
    by code_simp
  have short: "\<not> isShortForm \<lparr> isShortForm = False, didMethodName = ?p, uniqueSuffix = ''abc'',
            createOperation = None, shortForm = ''did:method:abc'' \<rparr>"
    by simp
  have url: "searchParams ?E ?s = Some [(''-method-initial-state'', ''x.y''), (''a'', ''1'')]"
    by code_simp
  have key: "''-method-initial-state'' = ''-'' @ split CHR '':'' ?p ! 1 @ ''-initial-state''"
    by simp
  from create_query_parameters [OF parts long short url key]
  have "create ?E ?s ?p = Inl DidLongFormOnlyOneQueryParamAllowed"
    by blast
  with url show ?thesis by simp
qed

text \<open>
  C3 as stated fails: a query of two parameters whose first key is not the expected
  one is rejected with \<^verbatim>\<open>DidLongFormOnlyInitialStateParameterIsAllowed\<close>, not with
  \<^verbatim>\<open>DidLongFormOnlyOneQueryParamAllowed\<close>, because the callback checks the key of
  the first parameter before it sees the second.
\<close>

theorem create_two_parameters_wrong_first_key:
  "searchParams sampleCollaborators ''did:method:abc?a=1&-method-initial-state=x.y'' =
     Some [(''a'', ''1''), (''-method-initial-state'', ''x.y'')] \<and>
   create sampleCollaborators ''did:method:abc?a=1&-method-initial-state=x.y'' ''did:method:'' =
     Inl DidLongFormOnlyInitialStateParameterIsAllowed \<and>
   create sampleCollaborators ''did:method:abc?a=1&-method-initial-state=x.y'' ''did:method:'' \<noteq>
     Inl DidLongFormOnlyOneQueryParamAllowed"
  by code_simp

section \<open>The suffix of a long-form DID\<close>

text \<open>
  C1.  Take the long-form DID string \<^verbatim>\<open>did:m:S?q\<close> whose query the URL parser
  reads as the one parameter \<^verbatim>\<open>-m-initial-state=<suffixData>.<delta>\<close>, with a
  creation operation that the parser accepts and whose encoded suffix data is
  \<^verbatim>\<open>suffixData\<close>, and let the candidate be the suffix data decoded, hashed with the
  algorithm code embedded in \<open>S\<close>, and encoded.  If \<open>S\<close> equals the candidate,
  \<^verbatim>\<open>Did.create\<close> succeeds and returns the long-form \<^verbatim>\<open>Did\<close> with unique suffix
  \<open>S\<close> and that creation operation; if it differs, \<^verbatim>\<open>Did.create\<close> fails with
  \<^verbatim>\<open>DidUniqueSuffixFromInitialStateMismatch\<close>.
\<close>

theorem create_long_form_round_trip:
  assumes mname: "CHR '':'' \<notin> set m" "CHR ''?'' \<notin> set m"
    and prefix: "p = ''did:'' @ m @ '':''"
    and suffix: "S \<noteq> []" "CHR ''?'' \<notin> set S"
    and parts: "CHR ''.'' \<notin> set suffixData" "CHR ''.'' \<notin> set dl" "dl \<noteq> []"
    and url: "searchParams E (p @ S @ ''?'' @ q) =
                Some [(''-'' @ m @ ''-initial-state'', suffixData @ ''.'' @ dl)]"
    and parser: "parseObject E \<lparr> type' = Create, suffix_data = suffixData, delta = dl \<rparr> = Inr op"
                "encodedSuffixData op = suffixData"
    and algorithm: "decodeAsBuffer E S = Inr suffixBuffer"
                   "getHashAlgorithmCode E suffixBuffer = Inr code"
    and digest: "decodeAsBuffer E suffixData = Inr suffixDataBuffer"
                "hash E suffixDataBuffer code = Inr multihash"
  shows "create E (p @ S @ ''?'' @ q) p =
           (if S = encode E multihash
            then Inr \<lparr> isShortForm = False, didMethodName = p, uniqueSuffix = S,
                       createOperation = Some op, shortForm = p @ S \<rparr>
            else Inl DidUniqueSuffixFromInitialStateMismatch)"
proof -
  have sp: "split CHR '':'' p = [''did'', m, []]"
    using mname(1) by (simp add: prefix split_append)
  have qp: "CHR ''?'' \<notin> set p"
    using mname(2) by (simp add: prefix)
  have c: "Did_constructor (p @ S @ CHR ''?'' # q) p =
         Inr \<lparr> isShortForm = False, didMethodName = p, uniqueSuffix = S,
               createOperation = None, shortForm = p @ S \<rparr>"
    using qp suffix(2) suffix(1) by (rule Did_constructor_long_form)
  have g: "getInitialStateFromDidString E (p @ S @ CHR ''?'' # q) m =
           Inr (suffixData @ CHR ''.'' # dl)"
    using url getInitialState_single [of E "p @ S @ CHR ''?'' # q" m "suffixData @ CHR ''.'' # dl"]
    by simp
  have k: "constructCreateOperationFromInitialState E (suffixData @ CHR ''.'' # dl) = Inr op"
    using construct_one_dot [OF parts] parser(1) by simp
  show ?thesis
    by (auto simp: create_def sp c g k parser(2) algorithm digest Let_def)
qed

theorem create_long_form_round_trip_witness:
  "searchParams sampleCollaborators ''did:method:azyx?-method-initial-state=xyz.delta'' =
     Some [(''-method-initial-state'', ''xyz.delta'')] \<and>
   parseObject sampleCollaborators \<lparr> type' = Create, suffix_data = ''xyz'', delta = ''delta'' \<rparr> =
     Inr \<lparr> encodedSuffixData = ''xyz'' \<rparr> \<and>
   hash sampleCollaborators [120, 121, 122] 97 = Inr [97, 122, 121, 120] \<and>
   encode sampleCollaborators [97, 122, 121, 120] = ''azyx'' \<and>
   create sampleCollaborators ''did:method:azyx?-method-initial-state=xyz.delta'' ''did:method:'' =
     Inr \<lparr> isShortForm = False, didMethodName = ''did:method:'', uniqueSuffix = ''azyx'',
           createOperation = Some \<lparr> encodedSuffixData = ''xyz'' \<rparr>,
           shortForm = ''did:method:azyx'' \<rparr> \<and>
   create sampleCollaborators ''did:method:azyy?-method-initial-state=xyz.delta'' ''did:method:'' =
     Inl DidUniqueSuffixFromInitialStateMismatch"
proof -
  let ?E = sampleCollaborators
  let ?q = "''-method-initial-state=xyz.delta''"
  have url: "searchParams ?E (''did:method:'' @ S @ ''?'' @ ?q) =
      Some [(''-'' @ ''method'' @ ''-initial-state'', ''xyz'' @ ''.'' @ ''delta'')]"
    if "S = ''azyx'' \<or> S = ''azyy''" for S
    using that by (elim disjE; hypsubst) code_simp+
  have parser: "parseObject ?E \<lparr> type' = Create, suffix_data = ''xyz'', delta = ''delta'' \<rparr>
      = Inr \<lparr> encodedSuffixData = ''xyz'' \<rparr>"
    by code_simp
  have a1: "decodeAsBuffer ?E ''azyx'' = Inr [97, 122, 121, 120]" by code_simp
  have a2: "decodeAsBuffer ?E ''azyy'' = Inr [97, 122, 121, 121]" by code_simp
  have c1: "getHashAlgorithmCode ?E [97, 122, 121, 120] = Inr 97" by code_simp
  have c2: "getHashAlgorithmCode ?E [97, 122, 121, 121] = Inr 97" by code_simp
  have d: "decodeAsBuffer ?E ''xyz'' = Inr [120, 121, 122]" by code_simp
  have h: "hash ?E [120, 121, 122] 97 = Inr [97, 122, 121, 120]" by code_simp
  have e: "encode ?E [97, 122, 121, 120] = ''azyx''" by code_simp
  have r1: "create ?E (''did:method:'' @ ''azyx'' @ ''?'' @ ?q) ''did:method:'' =
           (if ''azyx'' = encode ?E [97, 122, 121, 120]
            then Inr \<lparr> isShortForm = False, didMethodName = ''did:method:'',
                       uniqueSuffix = ''azyx'',
                       createOperation = Some \<lparr> encodedSuffixData = ''xyz'' \<rparr>,
                       shortForm = ''did:method:'' @ ''azyx'' \<rparr>
            else Inl DidUniqueSuffixFromInitialStateMismatch)"
    by (rule create_long_form_round_trip
          [where m = "''method''" and dl = "''delta''" and suffixData = "''xyz''",
            OF _ _ _ _ _ _ _ _ url parser _ a1 c1 d h]) simp_all
  have r2: "create ?E (''did:method:'' @ ''azyy'' @ ''?'' @ ?q) ''did:method:'' =
           (if ''azyy'' = encode ?E [97, 122, 121, 120]
            then Inr \<lparr> isShortForm = False, didMethodName = ''did:method:'',
                       uniqueSuffix = ''azyy'',
                       createOperation = Some \<lparr> encodedSuffixData = ''xyz'' \<rparr>,
                       shortForm = ''did:method:'' @ ''azyy'' \<rparr>
            else Inl DidUniqueSuffixFromInitialStateMismatch)"
    by (rule create_long_form_round_trip
          [where m = "''method''" and dl = "''delta''" and suffixData = "''xyz''",
            OF _ _ _ _ _ _ _ _ url parser _ a2 c2 d h]) simp_all
  have u: "searchParams ?E ''did:method:azyx?-method-initial-state=xyz.delta'' =
     Some [(''-method-initial-state'', ''xyz.delta'')]"
    using url [of "''azyx''"] by simp
  show ?thesis
    using r1 r2 u parser h by (simp add: e)
qed

section \<open>Facts about patch application\<close>

lemma find_append_cases:
  "find P (xs @ ys) = (case find P xs of None \<Rightarrow> find P ys | Some x \<Rightarrow> Some x)"
  by (induction xs) auto

lemma latest_Cons_same:
  "field ''id'' k = field ''id'' n \<Longrightarrow> latest (n # ns) k = latest ns n"
  by (auto simp: latest_def find_append_cases split: option.splits)

lemma latest_Cons_other:
  "field ''id'' k \<noteq> field ''id'' n \<Longrightarrow> latest (n # ns) k = latest ns k"
  by (auto simp: latest_def find_append_cases split: option.splits)

lemma set_firstOfEachId: "set (firstOfEachId ks) \<subseteq> set ks"
  by (induction ks rule: firstOfEachId.induct) auto

lemma field_id_addPublicKey:
  "set (map (field ''id'') (addPublicKey n xs)) = insert (field ''id'' n) (set (map (field ''id'') xs))"
  by (auto simp: addPublicKey_def)

lemma foldl_addPublicKey:
  "foldl (\<lambda>keys k. addPublicKey k keys) xs incoming =
     map (latest incoming) xs @
     map (latest incoming)
       (firstOfEachId (filter (\<lambda>n. field ''id'' n \<notin> set (map (field ''id'') xs)) incoming))"
proof (induction incoming arbitrary: xs)
  case Nil
  show ?case by (simp add: latest_def)
next
  case (Cons n ns)
  let ?I = "\<lambda>ys. set (map (field ''id'') ys)"
  show ?case
  proof (cases "field ''id'' n \<in> ?I xs")
    case True
    let ?xs' = "map (\<lambda>k. if field ''id'' k = field ''id'' n then n else k) xs"
    have step: "addPublicKey n xs = ?xs'"
      using True by (simp add: addPublicKey_def)
    have ids: "?I ?xs' = ?I xs"
      using True by auto
    have head: "map (latest ns) ?xs' = map (latest (n # ns)) xs"
      by (auto simp: latest_Cons_same latest_Cons_other)
    have tail: "map (latest ns) (firstOfEachId (filter (\<lambda>m. field ''id'' m \<notin> ?I xs) ns)) =
                map (latest (n # ns)) (firstOfEachId (filter (\<lambda>m. field ''id'' m \<notin> ?I xs) ns))"
    proof (rule map_cong [OF refl])
      fix m assume "m \<in> set (firstOfEachId (filter (\<lambda>m. field ''id'' m \<notin> ?I xs) ns))"
      then have "field ''id'' m \<notin> ?I xs"
        using set_firstOfEachId by fastforce
      then have "field ''id'' m \<noteq> field ''id'' n"
        using True by auto
      then show "latest ns m = latest (n # ns) m"
        by (simp add: latest_Cons_other)
    qed
    have "foldl (\<lambda>keys k. addPublicKey k keys) xs (n # ns) =
          foldl (\<lambda>keys k. addPublicKey k keys) ?xs' ns"
      by (simp add: step)
    also have "\<dots> = map (latest ns) ?xs' @
        map (latest ns) (firstOfEachId (filter (\<lambda>m. field ''id'' m \<notin> ?I ?xs') ns))"
      by (rule Cons.IH)
    also have "\<dots> = map (latest (n # ns)) xs @
        map (latest (n # ns)) (firstOfEachId (filter (\<lambda>m. field ''id'' m \<notin> ?I xs) ns))"
      unfolding ids head tail ..
    also have "filter (\<lambda>m. field ''id'' m \<notin> ?I xs) ns = filter (\<lambda>m. field ''id'' m \<notin> ?I xs) (n # ns)"
      using True by simp
    finally show ?thesis .
  next
    case False
    have step: "addPublicKey n xs = xs @ [n]"
      using False by (simp add: addPublicKey_def)
    have head: "map (latest ns) xs = map (latest (n # ns)) xs"
    proof (rule map_cong [OF refl])
      fix k assume "k \<in> set xs"
      then have "field ''id'' k \<in> ?I xs" by simp
      then have "field ''id'' k \<noteq> field ''id'' n" using False by metis
      then show "latest ns k = latest (n # ns) k" by (simp add: latest_Cons_other)
    qed
    have self: "latest ns n = latest (n # ns) n"
      by (simp add: latest_Cons_same)
    have flt: "filter (\<lambda>m. field ''id'' m \<notin> ?I (xs @ [n])) ns =
               filter (\<lambda>m. field ''id'' m \<noteq> field ''id'' n) (filter (\<lambda>m. field ''id'' m \<notin> ?I xs) ns)"
      by (auto intro: filter_cong)
    have tail: "map (latest ns) (firstOfEachId (filter (\<lambda>m. field ''id'' m \<notin> ?I (xs @ [n])) ns)) =
                map (latest (n # ns)) (firstOfEachId (filter (\<lambda>m. field ''id'' m \<notin> ?I (xs @ [n])) ns))"
    proof (rule map_cong [OF refl])
      fix m assume "m \<in> set (firstOfEachId (filter (\<lambda>m. field ''id'' m \<notin> ?I (xs @ [n])) ns))"
      then have "field ''id'' m \<notin> ?I (xs @ [n])"
        using set_firstOfEachId by fastforce
      then have "field ''id'' m \<noteq> field ''id'' n" by auto
      then show "latest ns m = latest (n # ns) m"
        by (simp add: latest_Cons_other)
    qed
    have "foldl (\<lambda>keys k. addPublicKey k keys) xs (n # ns) =
          foldl (\<lambda>keys k. addPublicKey k keys) (xs @ [n]) ns"
      by (simp add: step)
    also have "\<dots> = map (latest ns) (xs @ [n]) @
        map (latest ns) (firstOfEachId (filter (\<lambda>m. field ''id'' m \<notin> ?I (xs @ [n])) ns))"
      by (rule Cons.IH)
    also have "\<dots> = map (latest (n # ns)) xs @
        map (latest (n # ns)) (firstOfEachId (filter (\<lambda>m. field ''id'' m \<notin> ?I xs) (n # ns)))"
    proof -
      have rhs: "firstOfEachId (filter (\<lambda>m. field ''id'' m \<notin> ?I xs) (n # ns)) =
          n # firstOfEachId (filter (\<lambda>m. field ''id'' m \<noteq> field ''id'' n)
                (filter (\<lambda>m. field ''id'' m \<notin> ?I xs) ns))"
        using False by simp
      have A: "map (latest ns) (xs @ [n]) = map (latest (n # ns)) xs @ [latest (n # ns) n]"
        using head self by simp
      show ?thesis
        unfolding A tail unfolding flt rhs by simp
    qed
    finally show ?thesis .
  qed
qed


lemma find_rev_distinct:
  "distinct (map f xs) \<Longrightarrow> find (\<lambda>n. f n = v) (rev xs) = find (\<lambda>n. f n = v) xs"
proof (induction xs)
  case Nil
  then show ?case by simp
next
  case (Cons x xs)
  show ?case
  proof (cases "f x = v")
    case True
    have "f x \<notin> f ` set xs"
      using Cons.prems by simp
    then have "\<forall>y \<in> set xs. f y \<noteq> v"
      using True by (metis imageI)
    then have "find (\<lambda>n. f n = v) xs = None"
      by (simp add: find_None_iff)
    then show ?thesis
      using True Cons by (simp add: find_append_cases)
  next
    case False
    then show ?thesis
      using Cons by (simp add: find_append_cases split: option.splits)
  qed
qed

lemma latest_distinct:
  "distinct (map (field ''id'') incoming) \<Longrightarrow>
   latest incoming k =
     (case find (\<lambda>n. field ''id'' n = field ''id'' k) incoming of Some n \<Rightarrow> n | None \<Rightarrow> k)"
  by (simp add: latest_def find_rev_distinct)

lemma find_member_distinct:
  "distinct (map f xs) \<Longrightarrow> n \<in> set xs \<Longrightarrow> find (\<lambda>m. f m = f n) xs = Some n"
  by (induction xs) force+

lemma latest_member_distinct:
  "distinct (map (field ''id'') incoming) \<Longrightarrow> n \<in> set incoming \<Longrightarrow> latest incoming n = n"
  by (simp add: latest_distinct find_member_distinct)

lemma firstOfEachId_distinct:
  "distinct (map (field ''id'') ks) \<Longrightarrow> firstOfEachId ks = ks"
proof (induction ks)
  case Nil
  then show ?case by simp
next
  case (Cons k ks)
  have "field ''id'' k \<notin> field ''id'' ` set ks"
    using Cons.prems by simp
  then have "\<forall>n \<in> set ks. field ''id'' n \<noteq> field ''id'' k"
    by (metis imageI)
  then have "filter (\<lambda>n. field ''id'' n \<noteq> field ''id'' k) ks = ks"
    by (simp add: filter_id_conv)
  with Cons show ?case by simp
qed

lemma publicKeys_add:
  "publicKeys (applyPatches d [AddPublicKeys incoming]) =
     Some (map (latest incoming) (existingPublicKeys d) @
           map (latest incoming)
             (firstOfEachId
                (filter (\<lambda>n. field ''id'' n \<notin> set (map (field ''id'') (existingPublicKeys d)))
                   incoming)))"
  by (simp add: applyPatches_def addPublicKeys_def foldl_addPublicKey)

section \<open>Replace or append\<close>

text \<open>
  C6.  Applying one \<^verbatim>\<open>add-public-keys\<close> patch leaves \<^verbatim>\<open>serviceEndpoints\<close> alone
  and gives the \<^verbatim>\<open>publicKeys\<close> sequence that holds, at the position of each
  existing key, the incoming key with its id (the last such key, should the patch
  repeat an id) or the existing key itself when no incoming key has its id, and
  after them the incoming keys whose id matches no existing key, in the order of
  the patch.  When the ids of the patch are pairwise different this is: every
  existing key that an incoming key matches is replaced in place by that incoming
  key, in full, and every incoming key that matches none is appended.
\<close>

theorem applyPatches_add_public_keys:
  "publicKeys (applyPatches d [AddPublicKeys incoming]) =
     Some (map (latest incoming) (existingPublicKeys d) @
           map (latest incoming)
             (firstOfEachId
                (filter (\<lambda>n. field ''id'' n \<notin> set (map (field ''id'') (existingPublicKeys d)))
                   incoming))) \<and>
   serviceEndpoints (applyPatches d [AddPublicKeys incoming]) = serviceEndpoints d \<and>
   (distinct (map (field ''id'') incoming) \<longrightarrow>
      publicKeys (applyPatches d [AddPublicKeys incoming]) =
        Some (map (\<lambda>k. case find (\<lambda>n. field ''id'' n = field ''id'' k) incoming of
                          Some n \<Rightarrow> n
                        | None \<Rightarrow> k)
                (existingPublicKeys d) @
              filter (\<lambda>n. field ''id'' n \<notin> set (map (field ''id'') (existingPublicKeys d)))
                incoming))"
proof (intro conjI impI)
  show "publicKeys (applyPatches d [AddPublicKeys incoming]) =
     Some (map (latest incoming) (existingPublicKeys d) @
           map (latest incoming)
             (firstOfEachId
                (filter (\<lambda>n. field ''id'' n \<notin> set (map (field ''id'') (existingPublicKeys d)))
                   incoming)))"
    by (rule publicKeys_add)
  show "serviceEndpoints (applyPatches d [AddPublicKeys incoming]) = serviceEndpoints d"
    by (simp add: applyPatches_def addPublicKeys_def)
next
  assume dist: "distinct (map (field ''id'') incoming)"
  let ?new = "filter (\<lambda>n. field ''id'' n \<notin> set (map (field ''id'') (existingPublicKeys d))) incoming"
  have dnew: "distinct (map (field ''id'') ?new)"
    using dist by (simp add: distinct_map_filter)
  have first: "firstOfEachId ?new = ?new"
    using dnew by (rule firstOfEachId_distinct)
  have same: "map (latest incoming) ?new = ?new"
    by (rule map_idI) (simp add: latest_member_distinct dist)
  have old: "map (latest incoming) (existingPublicKeys d) =
      map (\<lambda>k. case find (\<lambda>n. field ''id'' n = field ''id'' k) incoming of
                  Some n \<Rightarrow> n | None \<Rightarrow> k) (existingPublicKeys d)"
    using dist by (simp add: latest_distinct)
  show "publicKeys (applyPatches d [AddPublicKeys incoming]) =
        Some (map (\<lambda>k. case find (\<lambda>n. field ''id'' n = field ''id'' k) incoming of
                          Some n \<Rightarrow> n
                        | None \<Rightarrow> k)
                (existingPublicKeys d) @ ?new)"
    unfolding publicKeys_add first same old ..
qed

theorem applyPatches_add_public_keys_witness:
  "distinct (map (field ''id'')
      [JObject [(''id'', JString ''aRepeatingId''), (''type'', JString ''newTypeValue'')],
       JObject [(''id'', JString ''aNonRepeatingId''), (''type'', JString ''someType'')]]) \<and>
   publicKeys
     (applyPatches
        \<lparr> publicKeys =
            Some [JObject [(''id'', JString ''aRepeatingId''), (''type'', JString ''someType''),
                           (''jwk'', JString ''any value''), (''usage'', JArray [JString ''ops''])]],
          serviceEndpoints = Some [] \<rparr>
        [AddPublicKeys
           [JObject [(''id'', JString ''aRepeatingId''), (''type'', JString ''newTypeValue'')],
            JObject [(''id'', JString ''aNonRepeatingId''), (''type'', JString ''someType'')]]]) =
     Some [JObject [(''id'', JString ''aRepeatingId''), (''type'', JString ''newTypeValue'')],
           JObject [(''id'', JString ''aNonRepeatingId''), (''type'', JString ''someType'')]]"
proof -
  let ?d = "\<lparr> publicKeys =
            Some [JObject [(''id'', JString ''aRepeatingId''), (''type'', JString ''someType''),
                           (''jwk'', JString ''any value''), (''usage'', JArray [JString ''ops''])]],
          serviceEndpoints = Some [] \<rparr>"
  let ?new = "[JObject [(''id'', JString ''aRepeatingId''), (''type'', JString ''newTypeValue'')],
       JObject [(''id'', JString ''aNonRepeatingId''), (''type'', JString ''someType'')]]"
  have dist: "distinct (map (field ''id'') ?new)"
    by code_simp
  have rhs: "Some (map (\<lambda>k. case find (\<lambda>n. field ''id'' n = field ''id'' k) ?new of
                          Some n \<Rightarrow> n
                        | None \<Rightarrow> k)
                (existingPublicKeys ?d) @
              filter (\<lambda>n. field ''id'' n \<notin> set (map (field ''id'') (existingPublicKeys ?d))) ?new)
        = Some ?new"
    by code_simp
  from applyPatches_add_public_keys [of ?d ?new] dist
  have "publicKeys (applyPatches ?d [AddPublicKeys ?new]) =
        Some (map (\<lambda>k. case find (\<lambda>n. field ''id'' n = field ''id'' k) ?new of
                          Some n \<Rightarrow> n
                        | None \<Rightarrow> k)
                (existingPublicKeys ?d) @
              filter (\<lambda>n. field ''id'' n \<notin> set (map (field ''id'') (existingPublicKeys ?d))) ?new)"
    by blast
  with rhs dist show ?thesis by (simp only: simp_thms)
qed

text \<open>The example of the claim: \<^verbatim>\<open>[{id:"k", type:"T1"}]\<close> patched with
  \<^verbatim>\<open>[{id:"k", type:"T2"}]\<close> is \<^verbatim>\<open>[{id:"k", type:"T2"}]\<close>.\<close>

lemma applyPatches_replace_example:
  "publicKeys
     (applyPatches
        \<lparr> publicKeys = Some [JObject [(''id'', JString ''k''), (''type'', JString ''T1'')]],
          serviceEndpoints = None \<rparr>
        [AddPublicKeys [JObject [(''id'', JString ''k''), (''type'', JString ''T2'')]]]) =
     Some [JObject [(''id'', JString ''k''), (''type'', JString ''T2'')]]"
  by code_simp

section \<open>Removing service endpoints\<close>

text \<open>
  C7.  Applying a \<^verbatim>\<open>remove-service-endpoints\<close> patch is
  \<^verbatim>\<open>removeServiceEndpoints\<close>, which returns a document and raises nothing.  It
  returns the document unchanged when the document has no \<^verbatim>\<open>serviceEndpoints\<close>
  collection, and also when no entry of the collection has a listed id; in general
  it keeps, in their order, exactly the entries whose id is not listed, and changes
  nothing else.
\<close>

theorem removeServiceEndpoints_filter:
  "applyPatches d [RemoveServiceEndpoints ids] = removeServiceEndpoints d ids \<and>
   (serviceEndpoints d = None \<longrightarrow> removeServiceEndpoints d ids = d) \<and>
   (\<forall>es. serviceEndpoints d = Some es \<and>
         (\<forall>e \<in> set es. field ''id'' e \<notin> set (map JString ids)) \<longrightarrow>
         removeServiceEndpoints d ids = d) \<and>
   (\<forall>es. serviceEndpoints d = Some es \<longrightarrow>
         removeServiceEndpoints d ids =
           d \<lparr> serviceEndpoints :=
                 Some (filter (\<lambda>e. field ''id'' e \<notin> set (map JString ids)) es) \<rparr>)"
proof (intro conjI allI impI)
  show "applyPatches d [RemoveServiceEndpoints ids] = removeServiceEndpoints d ids"
    by (simp add: applyPatches_def)
  show "removeServiceEndpoints d ids = d" if "serviceEndpoints d = None"
    using that by (simp add: removeServiceEndpoints_def)
  show "removeServiceEndpoints d ids = d"
    if h: "serviceEndpoints d = Some es \<and>
         (\<forall>e \<in> set es. field ''id'' e \<notin> set (map JString ids))" for es
  proof -
    have "filter (\<lambda>e. field ''id'' e \<notin> set (map JString ids)) es = es"
      using h by (simp add: filter_id_conv)
    then show ?thesis
      using h by (simp add: removeServiceEndpoints_def)
  qed
  show "removeServiceEndpoints d ids =
           d \<lparr> serviceEndpoints :=
                 Some (filter (\<lambda>e. field ''id'' e \<notin> set (map JString ids)) es) \<rparr>"
    if "serviceEndpoints d = Some es" for es
    using that by (simp add: removeServiceEndpoints_def)
qed

theorem removeServiceEndpoints_filter_witness:
  "serviceEndpoints \<lparr> publicKeys = Some [samplePublicKey ''aRepeatingId'' [''ops'']],
       serviceEndpoints = None \<rparr> = None \<and>
   removeServiceEndpoints
     \<lparr> publicKeys = Some [samplePublicKey ''aRepeatingId'' [''ops'']], serviceEndpoints = None \<rparr>
     [''1'', ''3''] =
     \<lparr> publicKeys = Some [samplePublicKey ''aRepeatingId'' [''ops'']], serviceEndpoints = None \<rparr> \<and>
   removeServiceEndpoints
     \<lparr> publicKeys = Some [samplePublicKey ''aRepeatingId'' [''ops'']],
       serviceEndpoints = Some (map sampleServiceEndpoint [''1'', ''2'', ''3'', ''4'']) \<rparr>
     [''1'', ''3''] =
     \<lparr> publicKeys = Some [samplePublicKey ''aRepeatingId'' [''ops'']],
       serviceEndpoints = Some (map sampleServiceEndpoint [''2'', ''4'']) \<rparr> \<and>
   removeServiceEndpoints
     \<lparr> publicKeys = Some [samplePublicKey ''aRepeatingId'' [''ops'']],
       serviceEndpoints = Some (map sampleServiceEndpoint [''1'', ''2'', ''3'', ''4'']) \<rparr>
     [''5'', ''6''] =
     \<lparr> publicKeys = Some [samplePublicKey ''aRepeatingId'' [''ops'']],
       serviceEndpoints = Some (map sampleServiceEndpoint [''1'', ''2'', ''3'', ''4'']) \<rparr>"
proof -
  let ?keys = "Some [samplePublicKey ''aRepeatingId'' [''ops'']]"
  let ?none = "\<lparr> publicKeys = ?keys, serviceEndpoints = None \<rparr>"
  let ?es = "map sampleServiceEndpoint [''1'', ''2'', ''3'', ''4'']"
  let ?d = "\<lparr> publicKeys = ?keys, serviceEndpoints = Some ?es \<rparr>"
  have n: "serviceEndpoints ?none = None" by simp
  have s: "serviceEndpoints ?d = Some ?es" by simp
  have absent: "\<forall>e \<in> set ?es. field ''id'' e \<notin> set (map JString [''5'', ''6''])"
    by code_simp
  have kept: "filter (\<lambda>e. field ''id'' e \<notin> set (map JString [''1'', ''3''])) ?es =
      map sampleServiceEndpoint [''2'', ''4'']"
    by code_simp
  from removeServiceEndpoints_filter [of ?none "[''1'', ''3'']"] n
  have 1: "removeServiceEndpoints ?none [''1'', ''3''] = ?none"
    by blast
  from removeServiceEndpoints_filter [of ?d "[''1'', ''3'']"] s
  have "removeServiceEndpoints ?d [''1'', ''3''] =
      ?d \<lparr> serviceEndpoints :=
            Some (filter (\<lambda>e. field ''id'' e \<notin> set (map JString [''1'', ''3''])) ?es) \<rparr>"
    by blast
  then have 2: "removeServiceEndpoints ?d [''1'', ''3''] =
      \<lparr> publicKeys = ?keys, serviceEndpoints = Some (map sampleServiceEndpoint [''2'', ''4'']) \<rparr>"
    by (simp only: kept) simp
  from removeServiceEndpoints_filter [of ?d "[''5'', ''6'']"] s absent
  have 3: "removeServiceEndpoints ?d [''5'', ''6''] = ?d"
    by blast
  from n 1 2 3 show ?thesis by (simp only: simp_thms)
qed

section \<open>Deactivation\<close>

text \<open>
  C4.  For a \<^verbatim>\<open>DidState\<close> whose \<^verbatim>\<open>nextRecoveryCommitmentHash\<close> is undefined,
  whatever its document and its other fields are, \<^verbatim>\<open>transformToExternalDocument\<close>
  returns the object \<^verbatim>\<open>{status: "deactivated"}\<close> and nothing else: no document, no
  keys, no metadata.
\<close>

theorem transformToExternalDocument_deactivated:
  "transformToExternalDocument (didState \<lparr> nextRecoveryCommitmentHash := None \<rparr>) did =
     JObject [(''status'', JString ''deactivated'')]"
  by (simp add: transformToExternalDocument_def)


theorem transformToExternalDocument_deactivated_witness:
  "transformToExternalDocument
     \<lparr> document = sampleDocument,
       lastOperationTransactionNumber = 123,
       nextRecoveryCommitmentHash = None,
       nextUpdateCommitmentHash = Some ''anyCommitmentHash'',
       recoveryKey = sampleJwk ''recovery'' \<rparr>
     ''did:method:suffix'' =
   JObject [(''status'', JString ''deactivated'')]"
  using transformToExternalDocument_deactivated [of sampleDidState "''did:method:suffix''"]
  by (simp add: sampleDidState_def)

section \<open>Authentication rendering\<close>

lemma field_didDocument:
  "nextRecoveryCommitmentHash didState = Some h \<Longrightarrow>
   arrayItems (field ''publicKey'' (field ''didDocument'' (transformToExternalDocument didState did))) =
     map didDocumentPublicKey (filter (hasUsage ''general'') (existingPublicKeys (document didState))) \<and>
   arrayItems (field ''authentication'' (field ''didDocument'' (transformToExternalDocument didState did))) =
     concat (map authenticationEntries (existingPublicKeys (document didState)))"
  by (simp add: transformToExternalDocument_def field_def arrayItems_def Let_def)


lemma distinct_map_eqD:
  "distinct (map f xs) \<Longrightarrow> a \<in> set xs \<Longrightarrow> b \<in> set xs \<Longrightarrow> f a = f b \<Longrightarrow> a = b"
  by (meson distinct_map inj_onD)

lemma authentication_items:
  "set (concat (map authenticationEntries keys)) = (\<Union>k \<in> set keys. set (authenticationEntries k))"
  by simp

lemma authenticationEntries_cases:
  "e \<in> set (authenticationEntries k) \<longleftrightarrow>
     hasUsage ''auth'' k \<and>
     (if hasUsage ''general'' k then e = JString (''#'' @ idString k) else e = didDocumentPublicKey k)"
  by (simp add: authenticationEntries_def)

lemma field_id_didDocumentPublicKey:
  "field ''id'' (didDocumentPublicKey k) = JString (''#'' @ idString k)"
  unfolding didDocumentPublicKey_def field_def by simp

lemma field_JString: "field name (JString s) = JUndefined"
  by (simp add: field_def)

lemma didDocumentPublicKey_not_string: "didDocumentPublicKey k \<noteq> JString s"
  by (simp add: didDocumentPublicKey_def)

text \<open>
  C5.  Take a state that is not deactivated, whose keys have strings as ids, no two
  the same, and one of its keys.  If the usage of the key has both \<^verbatim>\<open>general\<close> and
  \<^verbatim>\<open>auth\<close>, the \<^verbatim>\<open>authentication\<close> array holds the bare reference \<^verbatim>\<open>#<id>\<close>,
  the \<^verbatim>\<open>publicKey\<close> array holds the key's entry, whose id is that reference, and no
  embedded object of \<^verbatim>\<open>authentication\<close> has that id.  If the usage of the key is
  \<^verbatim>\<open>auth\<close> only, the \<^verbatim>\<open>authentication\<close> array holds the key as a full embedded
  object and not as a reference, and no entry of the \<^verbatim>\<open>publicKey\<close> array has its
  id.
\<close>

theorem transformToExternalDocument_authentication:
  assumes active: "nextRecoveryCommitmentHash didState = Some h"
    and keys: "publicKeys (document didState) = Some keys"
    and strings: "\<forall>k \<in> set keys. \<exists>s. field ''id'' k = JString s"
    and unique: "distinct (map (field ''id'') keys)"
    and member: "key \<in> set keys"
    and result: "didDocument = field ''didDocument'' (transformToExternalDocument didState did)"
  shows "(hasUsage ''general'' key \<and> hasUsage ''auth'' key \<longrightarrow>
            JString (''#'' @ idString key) \<in> set (arrayItems (field ''authentication'' didDocument)) \<and>
            didDocumentPublicKey key \<in> set (arrayItems (field ''publicKey'' didDocument)) \<and>
            field ''id'' (didDocumentPublicKey key) = JString (''#'' @ idString key) \<and>
            (\<forall>e \<in> set (arrayItems (field ''authentication'' didDocument)).
               field ''id'' e \<noteq> JString (''#'' @ idString key))) \<and>
         (set (arrayItems (field ''usage'' key)) = {JString ''auth''} \<longrightarrow>
            didDocumentPublicKey key \<in> set (arrayItems (field ''authentication'' didDocument)) \<and>
            JString (''#'' @ idString key) \<notin> set (arrayItems (field ''authentication'' didDocument)) \<and>
            (\<forall>e \<in> set (arrayItems (field ''publicKey'' didDocument)).
               field ''id'' e \<noteq> JString (''#'' @ idString key)))"
proof -
  have ex: "existingPublicKeys (document didState) = keys"
    using keys by (simp add: existingPublicKeys_def)
  have pk: "arrayItems (field ''publicKey'' didDocument) =
      map didDocumentPublicKey (filter (hasUsage ''general'') keys)"
    using field_didDocument [OF active, of did] by (simp only: ex result)
  have au: "set (arrayItems (field ''authentication'' didDocument)) =
      (\<Union>k \<in> set keys. set (authenticationEntries k))"
    using field_didDocument [OF active, of did] by (simp only: ex result authentication_items)
  have inj: "a = b"
    if a: "a \<in> set keys" and b: "b \<in> set keys" and same: "idString a = idString b" for a b
  proof -
    obtain s where s: "field ''id'' a = JString s"
      using strings a by blast
    obtain t where t: "field ''id'' b = JString t"
      using strings b by blast
    have "field ''id'' a = field ''id'' b"
      using same s t by (simp add: idString_def)
    with unique a b show "a = b"
      by (rule distinct_map_eqD)
  qed
  have auth_in: "e \<in> set (arrayItems (field ''authentication'' didDocument)) \<longleftrightarrow>
      (\<exists>k \<in> set keys. hasUsage ''auth'' k \<and>
        (if hasUsage ''general'' k then e = JString (''#'' @ idString k)
         else e = didDocumentPublicKey k))" for e
    unfolding au by (simp add: authenticationEntries_cases)
  show ?thesis
  proof (intro conjI impI)
    assume u: "hasUsage ''general'' key \<and> hasUsage ''auth'' key"
    show "JString (''#'' @ idString key) \<in> set (arrayItems (field ''authentication'' didDocument))"
      unfolding auth_in using u member by (intro bexI [of _ key]) simp_all
    show "didDocumentPublicKey key \<in> set (arrayItems (field ''publicKey'' didDocument))"
      unfolding pk using u member by simp
    show "field ''id'' (didDocumentPublicKey key) = JString (''#'' @ idString key)"
      by (rule field_id_didDocumentPublicKey)
    show "\<forall>e \<in> set (arrayItems (field ''authentication'' didDocument)).
               field ''id'' e \<noteq> JString (''#'' @ idString key)"
    proof (intro ballI notI)
      fix e assume e: "e \<in> set (arrayItems (field ''authentication'' didDocument))"
        and eq: "field ''id'' e = JString (''#'' @ idString key)"
      from e obtain k where k: "k \<in> set keys" "hasUsage ''auth'' k"
        "if hasUsage ''general'' k then e = JString (''#'' @ idString k)
         else e = didDocumentPublicKey k"
        unfolding auth_in by blast
      have ng: "\<not> hasUsage ''general'' k"
      proof
        assume "hasUsage ''general'' k"
        then have "e = JString (''#'' @ idString k)" using k(3) by simp
        then show False using eq by (simp add: field_JString)
      qed
      then have "e = didDocumentPublicKey k" using k(3) by simp
      then have "idString k = idString key"
        using eq by (simp add: field_id_didDocumentPublicKey)
      then have "k = key" using inj [OF k(1) member] by simp
      then show False using ng u by simp
    qed
  next
    assume u: "set (arrayItems (field ''usage'' key)) = {JString ''auth''}"
    have a: "hasUsage ''auth'' key" and g: "\<not> hasUsage ''general'' key"
      using u by (simp_all add: hasUsage_def)
    show "didDocumentPublicKey key \<in> set (arrayItems (field ''authentication'' didDocument))"
      unfolding auth_in using a g member by (intro bexI [of _ key]) simp_all
    show "JString (''#'' @ idString key) \<notin> set (arrayItems (field ''authentication'' didDocument))"
    proof
      assume "JString (''#'' @ idString key) \<in> set (arrayItems (field ''authentication'' didDocument))"
      then obtain k where k: "k \<in> set keys" "hasUsage ''auth'' k"
        "if hasUsage ''general'' k then JString (''#'' @ idString key) = JString (''#'' @ idString k)
         else JString (''#'' @ idString key) = didDocumentPublicKey k"
        unfolding auth_in by blast
      have gk: "hasUsage ''general'' k"
      proof (rule ccontr)
        assume "\<not> hasUsage ''general'' k"
        then have "JString (''#'' @ idString key) = didDocumentPublicKey k" using k(3) by simp
        then show False using didDocumentPublicKey_not_string [of k] by metis
      qed
      then have "idString k = idString key" using k(3) by simp
      then have "k = key" using inj [OF k(1) member] by simp
      then show False using gk g by simp
    qed
    show "\<forall>e \<in> set (arrayItems (field ''publicKey'' didDocument)).
               field ''id'' e \<noteq> JString (''#'' @ idString key)"
    proof (intro ballI notI)
      fix e assume e: "e \<in> set (arrayItems (field ''publicKey'' didDocument))"
        and eq: "field ''id'' e = JString (''#'' @ idString key)"
      from e obtain k where k: "k \<in> set keys" "hasUsage ''general'' k" "e = didDocumentPublicKey k"
        unfolding pk by auto
      have "idString k = idString key"
        using eq k(3) by (simp add: field_id_didDocumentPublicKey)
      then have "k = key" using inj [OF k(1) member] by simp
      then show False using k(2) g by simp
    qed
  qed
qed

theorem transformToExternalDocument_authentication_witness:
  "arrayItems (field ''authentication''
     (field ''didDocument'' (transformToExternalDocument sampleDidState ''did:method:suffix''))) =
     [JString ''#anySigningKey'',
      didDocumentPublicKey (samplePublicKey ''authePbulicKey'' [''auth''])] \<and>
   arrayItems (field ''publicKey''
     (field ''didDocument'' (transformToExternalDocument sampleDidState ''did:method:suffix''))) =
     [didDocumentPublicKey (samplePublicKey ''anySigningKey'' [''ops'', ''general'', ''auth''])] \<and>
   JString ''#anySigningKey'' \<in> set (arrayItems (field ''authentication''
     (field ''didDocument'' (transformToExternalDocument sampleDidState ''did:method:suffix'')))) \<and>
   didDocumentPublicKey (samplePublicKey ''authePbulicKey'' [''auth''])
     \<in> set (arrayItems (field ''authentication''
     (field ''didDocument'' (transformToExternalDocument sampleDidState ''did:method:suffix''))))"
proof -
  let ?signing = "samplePublicKey ''anySigningKey'' [''ops'', ''general'', ''auth'']"
  let ?auth = "samplePublicKey ''authePbulicKey'' [''auth'']"
  let ?keys = "[?signing, ?auth]"
  let ?doc = "field ''didDocument'' (transformToExternalDocument sampleDidState ''did:method:suffix'')"
  have active: "nextRecoveryCommitmentHash sampleDidState = Some ''anyCommitmentHash''"
    by (simp add: sampleDidState_def)
  have keys: "publicKeys (document sampleDidState) = Some ?keys"
    by (simp add: sampleDidState_def sampleDocument_def)
  have s1: "field ''id'' ?signing = JString ''anySigningKey''" by code_simp
  have s2: "field ''id'' ?auth = JString ''authePbulicKey''" by code_simp
  have strings: "\<forall>k \<in> set ?keys. \<exists>s. field ''id'' k = JString s"
    using s1 s2 by simp
  have unique: "distinct (map (field ''id'') ?keys)"
    by code_simp
  have m1: "?signing \<in> set ?keys" by simp
  have m2: "?auth \<in> set ?keys" by simp
  have u1: "hasUsage ''general'' ?signing \<and> hasUsage ''auth'' ?signing"
    by code_simp
  have u2: "set (arrayItems (field ''usage'' ?auth)) = {JString ''auth''}"
    by code_simp
  have i1: "''#'' @ idString ?signing = ''#anySigningKey''"
    by code_simp
  have a: "arrayItems (field ''authentication'' ?doc) =
      [JString ''#anySigningKey'', didDocumentPublicKey ?auth]"
    by code_simp
  have p: "arrayItems (field ''publicKey'' ?doc) = [didDocumentPublicKey ?signing]"
    by code_simp
  from transformToExternalDocument_authentication
    [OF active keys strings unique m1 refl, of "''did:method:suffix''"] u1
  have 1: "JString (''#'' @ idString ?signing) \<in> set (arrayItems (field ''authentication'' ?doc))"
    by blast
  from transformToExternalDocument_authentication
    [OF active keys strings unique m2 refl, of "''did:method:suffix''"] u2
  have 2: "didDocumentPublicKey ?auth \<in> set (arrayItems (field ''authentication'' ?doc))"
    by blast
  from 1 have ref: "JString ''#anySigningKey'' \<in> set (arrayItems (field ''authentication'' ?doc))"
    by (simp only: i1)
  from a p ref 2 show ?thesis by (simp only: simp_thms)
qed

section \<open>Uniqueness of the key ids\<close>






















section \<open>The expectations of the test suite\<close>

text \<open>
  The model of the document composer gives what the tests under
  \<^verbatim>\<open>describe('DocumentComposer')\<close> expect.  First the resolution result for a
  signing key with every usage and a key with \<^verbatim>\<open>auth\<close> usage only.
\<close>

lemma test_transformToExternalDocument:
  "transformToExternalDocument sampleDidState ''did:method:suffix'' =
     JObject
       [(''@context'', JString ''https://www.w3.org/ns/did-resolution/v1''),
        (''didDocument'',
           JObject
             [(''id'', JString ''did:method:suffix''),
              (''@context'',
                 JArray [JString ''https://www.w3.org/ns/did/v1'',
                         JObject [(''@base'', JString ''did:method:suffix'')]]),
              (''service'', JUndefined),
              (''publicKey'',
                 JArray
                   [JObject [(''id'', JString ''#anySigningKey''),
                             (''controller'', JString []),
                             (''type'', JString ''EcdsaSecp256k1VerificationKey2019''),
                             (''publicKeyJwk'', sampleJwk ''anySigningKey'')]]),
              (''authentication'',
                 JArray
                   [JString ''#anySigningKey'',
                    JObject [(''id'', JString ''#authePbulicKey''),
                             (''controller'', JString []),
                             (''type'', JString ''EcdsaSecp256k1VerificationKey2019''),
                             (''publicKeyJwk'', sampleJwk ''authePbulicKey'')]])]),
        (''methodMetadata'',
           JObject
             [(''operationPublicKeys'',
                 JArray
                   [JObject [(''id'', JString ''#anySigningKey''),
                             (''controller'', JString []),
                             (''type'', JString ''EcdsaSecp256k1VerificationKey2019''),
                             (''publicKeyJwk'', sampleJwk ''anySigningKey'')]]),
              (''recoveryKey'', sampleJwk ''recovery'')])]"
  by code_simp

lemma test_addServiceEndpoints:
  "serviceEndpoints
     (addServiceEndpoints
        \<lparr> publicKeys = Some [samplePublicKey ''aRepeatingId'' [''ops'']], serviceEndpoints = None \<rparr>
        [JObject [(''id'', JString ''someId''), (''type'', JString ''someType''),
                  (''serviceEndpoint'', JString ''someEndpoint'')]]) =
     Some [JObject [(''id'', JString ''someId''), (''type'', JString ''someType''),
                    (''serviceEndpoint'', JString ''someEndpoint'')]]"
  by code_simp

lemma test_validateId:
  "validateId sampleLimits (JString ''AnInavlidIdWith#'') =
     Inl DocumentComposerIdNotUsingBase64UrlCharacterSet"
  by code_simp

lemma test_validateDocument_undefined:
  "validateDocument sampleLimits None = Inl DocumentComposerDocumentMissing"
  by code_simp

lemma test_validateDocument_unknown_property:
  "validateDocument sampleLimits (Some [(''unknownProperty'', JString ''any value'')]) =
     Inl DocumentComposerUnknownPropertyInDocument"
  by code_simp

lemma test_validateDocument_usage_empty:
  "validateDocument sampleLimits
     (Some [(''publicKeys'', JArray
        [JObject [(''id'', JString ''key1''),
                  (''type'', JString ''EcdsaSecp256k1VerificationKey2019''),
                  (''jwk'', JObject []),
                  (''usage'', JArray [])]])]) =
     Inl DocumentComposerPublicKeyUsageMissingOrUnknown"
  by code_simp

lemma test_validateDocument_usage_undefined:
  "validateDocument sampleLimits
     (Some [(''publicKeys'', JArray
        [JObject [(''id'', JString ''key1''),
                  (''type'', JString ''EcdsaSecp256k1VerificationKey2019''),
                  (''jwk'', JObject []),
                  (''usage'', JUndefined)]])]) =
     Inl DocumentComposerPublicKeyUsageMissingOrUnknown"
  by code_simp

lemma test_validateDocument_usage_too_long:
  "validateDocument sampleLimits
     (Some [(''publicKeys'', JArray
        [JObject [(''id'', JString ''key1''),
                  (''type'', JString ''EcdsaSecp256k1VerificationKey2019''),
                  (''jwk'', JObject []),
                  (''usage'', JArray (map JString [''ops'', ''ops'', ''ops'', ''ops'']))]])]) =
     Inl DocumentComposerPublicKeyUsageExceedsMaxLength"
  by code_simp

lemma test_validateDocument_usage_invalid:
  "validateDocument sampleLimits
     (Some [(''publicKeys'', JArray
        [JObject [(''id'', JString ''key1''),
                  (''type'', JString ''EcdsaSecp256k1VerificationKey2019''),
                  (''jwk'', JObject []),
                  (''usage'', JArray (map JString [''ops'', ''somethingInvalid'']))]])]) =
     Inl DocumentComposerPublicKeyInvalidUsage"
  by code_simp

lemma test_validateId_too_long:
  "validateId sampleLimits
     (JString ''super long super long super long super long super long super long super long super long super long'') =
     Inl DocumentComposerIdTooLong"
  by code_simp

lemma test_validateServiceEndpoint_id_too_long:
  "validateServiceEndpoint sampleLimits
     (JObject [(''id'', JString ''super long super long super long super long super long super long super long super long super long''),
               (''type'', JUndefined),
               (''serviceEndpoint'', JString ''something'')]) =
     Inl DocumentComposerIdTooLong"
  by code_simp

lemma test_validateServiceEndpoint_unknown_property:
  "validateServiceEndpoint sampleLimits
     (JObject [(''extra'', JString ''property''), (''id'', JString ''someId''),
               (''type'', JUndefined), (''serviceEndpoint'', JString ''something'')]) =
     Inl DocumentComposerServiceEndpointMissingOrUnknownProperty"
  by code_simp

lemma test_validateServiceEndpoint_missing_property:
  "validateServiceEndpoint sampleLimits
     (JObject [(''id'', JString ''someId''), (''type'', JUndefined)]) =
     Inl DocumentComposerServiceEndpointMissingOrUnknownProperty"
  by code_simp

lemma test_validateServiceEndpoint_type_not_string:
  "validateServiceEndpoint sampleLimits
     (JObject [(''id'', JString ''someId''), (''type'', JUndefined),
               (''serviceEndpoint'', JString ''something'')]) =
     Inl DocumentComposerPatchServiceEndpointTypeNotString"
  by code_simp

lemma test_validateServiceEndpoint_type_too_long:
  "validateServiceEndpoint sampleLimits
     (JObject [(''id'', JString ''someId''),
               (''type'', JString ''1234567890123456789012345678901234567890''),
               (''serviceEndpoint'', JString ''something'')]) =
     Inl DocumentComposerPatchServiceEndpointTypeTooLong"
  by code_simp

lemma test_validateServiceEndpoint_endpoint_not_string:
  "validateServiceEndpoint sampleLimits
     (JObject [(''id'', JString ''someId''), (''type'', JString ''someType''),
               (''serviceEndpoint'', JUndefined)]) =
     Inl DocumentComposerPatchServiceEndpointServiceEndpointNotString"
  by code_simp

lemma test_validateServiceEndpoint_endpoint_too_long:
  "validateServiceEndpoint sampleLimits
     (JObject [(''id'', JString ''someId''), (''type'', JString ''someType''),
               (''serviceEndpoint'', JString ''https://www.1234567890123456789012345678901234567890123456789012345678901234567890123456789012345678900.long'')]) =
     Inl DocumentComposerPatchServiceEndpointServiceEndpointTooLong"
  by code_simp

lemma test_validateServiceEndpoint_endpoint_not_url:
  "validateServiceEndpoint sampleLimits
     (JObject [(''id'', JString ''someId''), (''type'', JString ''someType''),
               (''serviceEndpoint'', JString ''this is not a valid url'')]) =
     Inl DocumentComposerPatchServiceEndpointServiceEndpointNotValidUrl"
  by code_simp

end
